theory Spec2Isabelle
  imports
    Main
    "HOL-Library.Word"
    "HOL-Library.Char_ord"
    "HOL-Library.List_Lexorder"
    "HOL-Library.Product_Lexorder"
    "HOL-Library.Multiset"
begin

unbundle bit_operations_syntax

section \<open>Strings and bytes\<close>

text \<open>
  A Go \<^verbatim>\<open>string\<close> is a sequence of bytes; it is modelled as a \<^typ>\<open>string\<close>, a list of
  8-bit characters. \<^verbatim>\<open>sort.Strings\<close> and the comparison operators of Go order strings
  bytewise and lexicographically, which is the order of \<^typ>\<open>string\<close> given by the
  orders on characters and on lists.
\<close>

definition isLower :: "char \<Rightarrow> bool" where
  "isLower c \<longleftrightarrow> CHR ''a'' \<le> c \<and> c \<le> CHR ''z''"

definition isUpper :: "char \<Rightarrow> bool" where
  "isUpper c \<longleftrightarrow> CHR ''A'' \<le> c \<and> c \<le> CHR ''Z''"

definition isDigit :: "char \<Rightarrow> bool" where
  "isDigit c \<longleftrightarrow> CHR ''0'' \<le> c \<and> c \<le> CHR ''9''"

definition isAlnum :: "char \<Rightarrow> bool" where
  "isAlnum c \<longleftrightarrow> isLower c \<or> isUpper c \<or> isDigit c"

text \<open>
  \<^verbatim>\<open>strings.ToUpper\<close> and \<^verbatim>\<open>strings.ToLower\<close> on the ASCII letters. Bytes outside ASCII
  are left as they are (Go also maps the letters of other scripts).
\<close>

definition ToUpper :: "string \<Rightarrow> string" where
  "ToUpper s = map (\<lambda>c. if isLower c then char_of (of_char c - (32::nat)) else c) s"

definition ToLower :: "string \<Rightarrow> string" where
  "ToLower s = map (\<lambda>c. if isUpper c then char_of (of_char c + (32::nat)) else c) s"

text \<open>\<^verbatim>\<open>strings.Join\<close>.\<close>

fun Join :: "string list \<Rightarrow> string \<Rightarrow> string" where
  "Join [] sep = []"
| "Join [x] sep = x"
| "Join (x # y # ys) sep = x @ sep @ Join (y # ys) sep"

text \<open>
  \<^verbatim>\<open>strings.ReplaceAll(s, old, new)\<close> for a pattern \<open>old\<close> of one byte, the only way
  the program calls it.
\<close>

definition ReplaceAll :: "string \<Rightarrow> char \<Rightarrow> string \<Rightarrow> string" where
  "ReplaceAll s old new = concat (map (\<lambda>c. if c = old then new else [c]) s)"

text \<open>\<^verbatim>\<open>strings.Cut(s, sep)\<close> for a separator of one byte: (before, after, found).\<close>

fun Cut :: "string \<Rightarrow> char \<Rightarrow> string \<times> string \<times> bool" where
  "Cut [] sep = ([], [], False)"
| "Cut (c # cs) sep =
     (if c = sep then ([], cs, True)
      else (case Cut cs sep of (b, a, f) \<Rightarrow> (c # b, a, f)))"

text \<open>\<^verbatim>\<open>strings.HasPrefix\<close>.\<close>

definition HasPrefix :: "string \<Rightarrow> string \<Rightarrow> bool" where
  "HasPrefix s p \<longleftrightarrow> take (length p) s = p"

section \<open>Percent-encoding (net/url)\<close>

datatype encoding =
  encodePath | encodePathSegment | encodeHost | encodeZone
  | encodeUserPassword | encodeQueryComponent | encodeFragment

definition upperhex :: string where
  "upperhex = ''0123456789ABCDEF''"

text \<open>\<^verbatim>\<open>shouldEscape\<close> of net/url (Go 1.22): whether a byte is escaped in a part of a URL.\<close>

definition shouldEscape :: "char \<Rightarrow> encoding \<Rightarrow> bool" where
  "shouldEscape c mode =
    (if isAlnum c then False
     else if (mode = encodeHost \<or> mode = encodeZone) \<and> c \<in> set ''!$&'()*+,;=:[]<>\"'' then False
     else if c \<in> set ''-_.~'' then False
     else if c \<in> set ''$&+,/:;=?@'' then
       (case mode of
          encodePath \<Rightarrow> c = CHR ''?''
        | encodePathSegment \<Rightarrow> c \<in> set ''/;,?''
        | encodeUserPassword \<Rightarrow> c \<in> set ''@/?:''
        | encodeQueryComponent \<Rightarrow> True
        | encodeFragment \<Rightarrow> False
        | _ \<Rightarrow> True)
     else if mode = encodeFragment \<and> c \<in> set ''!()*'' then False
     else True)"

text \<open>\<^verbatim>\<open>escape\<close>: a space becomes \<open>+\<close> in a query component, an escaped byte \<open>%XX\<close>.\<close>

definition escapeByte :: "encoding \<Rightarrow> char \<Rightarrow> string" where
  "escapeByte mode c =
    (if c = CHR '' '' \<and> mode = encodeQueryComponent then ''+''
     else if shouldEscape c mode then
       [CHR ''%'', upperhex ! (of_char c div 16), upperhex ! (of_char c mod 16)]
     else [c])"

definition escape :: "string \<Rightarrow> encoding \<Rightarrow> string" where
  "escape s mode = concat (map (escapeByte mode) s)"

definition QueryEscape :: "string \<Rightarrow> string" where
  "QueryEscape s = escape s encodeQueryComponent"

text \<open>The program's \<^verbatim>\<open>percentEncode\<close>.\<close>

definition percentEncode :: "string \<Rightarrow> string" where
  "percentEncode s = ReplaceAll (QueryEscape s) (CHR ''+'') ''%20''"

text \<open>
  The encoding as the specification words it: the ASCII letters and digits and the four
  marks \<open>- _ . ~\<close> stand for themselves, every other byte (the space among them) is
  written \<open>%XX\<close>, with the two upper-case hexadecimal digits of the byte.
\<close>

definition unreserved :: "char \<Rightarrow> bool" where
  "unreserved c \<longleftrightarrow> isAlnum c \<or> c \<in> set ''-_.~''"

definition pctXX :: "char \<Rightarrow> string" where
  "pctXX c = [CHR ''%'', upperhex ! (of_char c div 16), upperhex ! (of_char c mod 16)]"

definition specEncode :: "string \<Rightarrow> string" where
  "specEncode s = concat (map (\<lambda>c. if unreserved c then [c] else pctXX c) s)"

section \<open>Parsing a URL (net/url)\<close>

text \<open>
  \<^verbatim>\<open>url.Parse\<close>, \<^verbatim>\<open>(*URL).EscapedPath\<close> and \<^verbatim>\<open>(*URL).Query\<close> of the Go standard library
  (Go 1.22, the version the repository asks for), as far as \<^verbatim>\<open>normalizeURL\<close> reads
  their results: the scheme, the host, the path and the raw query. The user
  information and the fragment are checked as \<^verbatim>\<open>Parse\<close> checks them and not kept.
\<close>

datatype url_error =
  InvalidControlCharacter
  | MissingProtocolScheme
  | FirstPathSegmentColon
  | MissingBracketInHost
  | InvalidPort string
  | InvalidUserinfo
  | EscapeError string
  | InvalidHostError string

record URL =
  Scheme :: string
  Opaque :: string
  Host :: string
  Path :: string
  RawPath :: string
  RawQuery :: string

definition ishex :: "char \<Rightarrow> bool" where
  "ishex c \<longleftrightarrow> isDigit c \<or> (CHR ''a'' \<le> c \<and> c \<le> CHR ''f'') \<or> (CHR ''A'' \<le> c \<and> c \<le> CHR ''F'')"

definition unhex :: "char \<Rightarrow> nat" where
  "unhex c =
    (if isDigit c then of_char c - of_char (CHR ''0'')
     else if CHR ''a'' \<le> c \<and> c \<le> CHR ''f'' then of_char c - of_char (CHR ''a'') + 10
     else if CHR ''A'' \<le> c \<and> c \<le> CHR ''F'' then of_char c - of_char (CHR ''A'') + 10
     else 0)"

text \<open>
  \<^verbatim>\<open>unescape\<close>: its first loop checks the escapes and the bytes of a host, its second
  loop decodes.
\<close>

fun unescapeCheck :: "encoding \<Rightarrow> string \<Rightarrow> url_error option" where
  "unescapeCheck mode [] = None"
| "unescapeCheck mode (c # rest) =
    (if c = CHR ''%'' then
       (case rest of
          h1 # h2 # rest' \<Rightarrow>
            if \<not> ishex h1 \<or> \<not> ishex h2 then Some (EscapeError (take 3 (c # rest)))
            else if mode = encodeHost \<and> unhex h1 < 8 \<and> [c, h1, h2] \<noteq> ''%25''
              then Some (EscapeError [c, h1, h2])
            else if mode = encodeZone \<and> [c, h1, h2] \<noteq> ''%25''
                \<and> char_of (unhex h1 * 16 + unhex h2) \<noteq> CHR '' ''
                \<and> shouldEscape (char_of (unhex h1 * 16 + unhex h2)) encodeHost
              then Some (EscapeError [c, h1, h2])
            else unescapeCheck mode rest'
        | _ \<Rightarrow> Some (EscapeError (take 3 (c # rest))))
     else if c = CHR ''+'' then unescapeCheck mode rest
     else if (mode = encodeHost \<or> mode = encodeZone) \<and> (of_char c :: nat) < 128
         \<and> shouldEscape c encodeHost
       then Some (InvalidHostError [c])
     else unescapeCheck mode rest)"

fun unescapeDecode :: "encoding \<Rightarrow> string \<Rightarrow> string" where
  "unescapeDecode mode [] = []"
| "unescapeDecode mode (c # rest) =
    (if c = CHR ''%'' then
       (case rest of
          h1 # h2 # rest' \<Rightarrow> char_of (unhex h1 * 16 + unhex h2) # unescapeDecode mode rest'
        | _ \<Rightarrow> [])
     else if c = CHR ''+'' then
       (if mode = encodeQueryComponent then CHR '' '' else CHR ''+'') # unescapeDecode mode rest
     else c # unescapeDecode mode rest)"

definition unescape :: "string \<Rightarrow> encoding \<Rightarrow> url_error + string" where
  "unescape s mode =
    (case unescapeCheck mode s of
       Some e \<Rightarrow> Inl e
     | None \<Rightarrow> Inr (unescapeDecode mode s))"

definition QueryUnescape :: "string \<Rightarrow> url_error + string" where
  "QueryUnescape s = unescape s encodeQueryComponent"

definition validEncoded :: "string \<Rightarrow> encoding \<Rightarrow> bool" where
  "validEncoded s mode =
    list_all (\<lambda>c. c \<in> set ''!$&'()*+,;=:@[]%'' \<or> \<not> shouldEscape c mode) s"

definition stringContainsCTLByte :: "string \<Rightarrow> bool" where
  "stringContainsCTLByte s = list_ex (\<lambda>b. b < CHR '' '' \<or> b = CHR 0x7F) s"

text \<open>
  \<^verbatim>\<open>getScheme\<close>: the scheme before the first colon and the rest after it; no scheme when
  a byte that no scheme has comes first. The loop over the bytes carries the index
  \<open>i\<close> as the bytes already read.
\<close>

fun getSchemeLoop :: "string \<Rightarrow> string \<Rightarrow> string \<Rightarrow> url_error + (string \<times> string)" where
  "getSchemeLoop rawURL seen [] = Inr ([], rawURL)"
| "getSchemeLoop rawURL seen (c # cs) =
    (if isLower c \<or> isUpper c then getSchemeLoop rawURL (seen @ [c]) cs
     else if isDigit c \<or> c = CHR ''+'' \<or> c = CHR ''-'' \<or> c = CHR ''.'' then
       (if seen = [] then Inr ([], rawURL) else getSchemeLoop rawURL (seen @ [c]) cs)
     else if c = CHR '':'' then
       (if seen = [] then Inl MissingProtocolScheme else Inr (seen, cs))
     else Inr ([], rawURL))"

definition getScheme :: "string \<Rightarrow> url_error + (string \<times> string)" where
  "getScheme rawURL = getSchemeLoop rawURL [] rawURL"

definition validOptionalPort :: "string \<Rightarrow> bool" where
  "validOptionalPort port =
    (case port of
       [] \<Rightarrow> True
     | c # ds \<Rightarrow> c = CHR '':'' \<and> list_all isDigit ds)"

definition validUserinfo :: "string \<Rightarrow> bool" where
  "validUserinfo s = list_all (\<lambda>r. isAlnum r \<or> r \<in> set ''-._:~!$&'()*+,;=%@'') s"

text \<open>\<^verbatim>\<open>strings.LastIndex\<close> and \<^verbatim>\<open>strings.Index\<close>, with \<open>None\<close> for \<open>-1\<close>.\<close>

fun IndexFrom :: "nat \<Rightarrow> string \<Rightarrow> string \<Rightarrow> nat option" where
  "IndexFrom i [] p = (if p = [] then Some i else None)"
| "IndexFrom i (c # cs) p =
    (if take (length p) (c # cs) = p then Some i else IndexFrom (Suc i) cs p)"

definition Index :: "string \<Rightarrow> string \<Rightarrow> nat option" where
  "Index s p = IndexFrom 0 s p"

fun LastIndexFrom :: "nat \<Rightarrow> string \<Rightarrow> char \<Rightarrow> nat option \<Rightarrow> nat option" where
  "LastIndexFrom i [] p found = found"
| "LastIndexFrom i (c # cs) p found =
    LastIndexFrom (Suc i) cs p (if c = p then Some i else found)"

definition LastIndex :: "string \<Rightarrow> char \<Rightarrow> nat option" where
  "LastIndex s p = LastIndexFrom 0 s p None"

definition parseHost :: "string \<Rightarrow> url_error + string" where
  "parseHost host =
    (if HasPrefix host ''['' then
       (case LastIndex host (CHR '']'') of
          None \<Rightarrow> Inl MissingBracketInHost
        | Some i \<Rightarrow>
            if \<not> validOptionalPort (drop (i + 1) host) then Inl (InvalidPort (drop (i + 1) host))
            else
              (case Index (take i host) ''%25'' of
                 Some zone \<Rightarrow>
                   (case unescape (take zone host) encodeHost of
                      Inl e \<Rightarrow> Inl e
                    | Inr host1 \<Rightarrow>
                        (case unescape (drop zone (take i host)) encodeZone of
                           Inl e \<Rightarrow> Inl e
                         | Inr host2 \<Rightarrow>
                             (case unescape (drop i host) encodeHost of
                                Inl e \<Rightarrow> Inl e
                              | Inr host3 \<Rightarrow> Inr (host1 @ host2 @ host3))))
               | None \<Rightarrow> unescape host encodeHost))
     else
       (case LastIndex host (CHR '':'') of
          Some i \<Rightarrow>
            if \<not> validOptionalPort (drop i host) then Inl (InvalidPort (drop i host))
            else unescape host encodeHost
        | None \<Rightarrow> unescape host encodeHost))"

text \<open>
  \<^verbatim>\<open>parseAuthority\<close>: the host after the last \<open>@\<close>; the user information before it is
  checked and dropped.
\<close>

definition parseAuthority :: "string \<Rightarrow> url_error + string" where
  "parseAuthority authority =
    (case LastIndex authority (CHR ''@'') of
       None \<Rightarrow> parseHost authority
     | Some i \<Rightarrow>
         (case parseHost (drop (i + 1) authority) of
            Inl e \<Rightarrow> Inl e
          | Inr host \<Rightarrow>
              let userinfo = take i authority in
              if \<not> validUserinfo userinfo then Inl InvalidUserinfo
              else if CHR '':'' \<notin> set userinfo then
                (case unescape userinfo encodeUserPassword of
                   Inl e \<Rightarrow> Inl e
                 | Inr u \<Rightarrow> Inr host)
              else
                (case Cut userinfo (CHR '':'') of
                   (username, password, f) \<Rightarrow>
                     (case unescape username encodeUserPassword of
                        Inl e \<Rightarrow> Inl e
                      | Inr u \<Rightarrow>
                          (case unescape password encodeUserPassword of
                             Inl e \<Rightarrow> Inl e
                           | Inr p \<Rightarrow> Inr host)))))"

text \<open>\<^verbatim>\<open>(*URL).setPath\<close>: the decoded path, and the raw path when it is not the default encoding.\<close>

definition setPath :: "URL \<Rightarrow> string \<Rightarrow> url_error + URL" where
  "setPath u p =
    (case unescape p encodePath of
       Inl e \<Rightarrow> Inl e
     | Inr path \<Rightarrow>
         Inr (u\<lparr>Path := path, RawPath := (if p = escape path encodePath then [] else p)\<rparr>))"

definition emptyURL :: URL where
  "emptyURL = \<lparr>Scheme = [], Opaque = [], Host = [], Path = [], RawPath = [], RawQuery = []\<rparr>"

text \<open>The unexported \<^verbatim>\<open>parse(rawURL, viaRequest = false)\<close>, on the URL without its fragment.\<close>

definition parse :: "string \<Rightarrow> url_error + URL" where
  "parse rawURL =
    (if stringContainsCTLByte rawURL then Inl InvalidControlCharacter
     else if rawURL = ''*'' then Inr (emptyURL\<lparr>Path := ''*''\<rparr>)
     else
       (case getScheme rawURL of
          Inl e \<Rightarrow> Inl e
        | Inr (scheme0, rest0) \<Rightarrow>
            let scheme = ToLower scheme0;
                (rest, rawQuery) =
                  (if rest0 \<noteq> [] \<and> last rest0 = CHR ''?'' \<and> count_list rest0 (CHR ''?'') = 1
                   then (butlast rest0, [])
                   else (case Cut rest0 (CHR ''?'') of (b, a, f) \<Rightarrow> (b, a)));
                u = emptyURL\<lparr>Scheme := scheme, RawQuery := rawQuery\<rparr>
            in
            if \<not> HasPrefix rest ''/'' \<and> scheme \<noteq> [] then Inr (u\<lparr>Opaque := rest\<rparr>)
            else if \<not> HasPrefix rest ''/'' \<and> CHR '':'' \<in> set (fst (Cut rest (CHR ''/'')))
              then Inl FirstPathSegmentColon
            else if (scheme \<noteq> [] \<or> \<not> HasPrefix rest ''///'') \<and> HasPrefix rest ''//'' then
              (let authority0 = drop 2 rest;
                   (authority, rest') =
                     (case Index authority0 ''/'' of
                        Some i \<Rightarrow> (take i authority0, drop i authority0)
                      | None \<Rightarrow> (authority0, []))
               in case parseAuthority authority of
                    Inl e \<Rightarrow> Inl e
                  | Inr host \<Rightarrow> setPath (u\<lparr>Host := host\<rparr>) rest')
            else setPath u rest))"

text \<open>\<^verbatim>\<open>url.Parse\<close>: the fragment is cut off first, and must itself be well escaped.\<close>

definition Parse :: "string \<Rightarrow> url_error + URL" where
  "Parse rawURL =
    (case Cut rawURL (CHR ''#'') of
       (u, frag, f) \<Rightarrow>
         (case parse u of
            Inl e \<Rightarrow> Inl e
          | Inr url \<Rightarrow>
              if frag = [] then Inr url
              else (case unescape frag encodeFragment of
                      Inl e \<Rightarrow> Inl e
                    | Inr fr \<Rightarrow> Inr url)))"

definition EscapedPath :: "URL \<Rightarrow> string" where
  "EscapedPath u =
    (if RawPath u \<noteq> [] \<and> validEncoded (RawPath u) encodePath
        \<and> unescape (RawPath u) encodePath = Inr (Path u)
     then RawPath u
     else if Path u = ''*'' then ''*''
     else escape (Path u) encodePath)"

text \<open>
  \<^verbatim>\<open>url.Values\<close> is a Go map from a key to the list of its values. It is modelled as an
  association list with one entry for each key; the order of the entries stands for
  the order in which Go happens to range over the map, which Go leaves open.
\<close>

type_synonym Values = "(string \<times> string list) list"

fun Add :: "Values \<Rightarrow> string \<Rightarrow> string \<Rightarrow> Values" where
  "Add [] k v = [(k, [v])]"
| "Add ((k', vs) # m) k v = (if k' = k then (k', vs @ [v]) # m else (k', vs) # Add m k v)"

text \<open>\<^verbatim>\<open>strings.Split(s, sep)\<close> for a separator of one byte.\<close>

fun Split :: "string \<Rightarrow> char \<Rightarrow> string list" where
  "Split [] sep = [[]]"
| "Split (c # cs) sep =
    (if c = sep then [] # Split cs sep
     else (case Split cs sep of x # xs \<Rightarrow> (c # x) # xs | [] \<Rightarrow> [[c]]))"

text \<open>
  \<^verbatim>\<open>parseQuery\<close>: the pairs between the \<open>&\<close>, each cut at its first \<open>=\<close> and decoded;
  a pair with a semicolon, an empty pair and a pair that does not decode are skipped
  (their error is dropped by \<^verbatim>\<open>(*URL).Query\<close>).
\<close>

definition parseQueryPair :: "Values \<Rightarrow> string \<Rightarrow> Values" where
  "parseQueryPair m pair =
    (if CHR '';'' \<in> set pair then m
     else if pair = [] then m
     else (case Cut pair (CHR ''='') of
             (key, val, f) \<Rightarrow>
               (case QueryUnescape key of
                  Inl e \<Rightarrow> m
                | Inr key1 \<Rightarrow>
                    (case QueryUnescape val of
                       Inl e \<Rightarrow> m
                     | Inr value1 \<Rightarrow> Add m key1 value1))))"

definition ParseQuery :: "string \<Rightarrow> Values" where
  "ParseQuery query = (if query = [] then [] else foldl parseQueryPair [] (Split query (CHR ''&'')))"

definition Query :: "URL \<Rightarrow> Values" where
  "Query u = ParseQuery (RawQuery u)"

section \<open>Hashing and encodings (crypto/sha1, crypto/hmac, encoding/base64, encoding/hex)\<close>

type_synonym word32 = "32 word"

definition byteOf :: "char \<Rightarrow> word32" where
  "byteOf c = of_char c"

definition be32 :: "word32 \<Rightarrow> string" where
  "be32 w = map (\<lambda>i. char_of (unat (drop_bit i w AND 0xFF))) [24, 16, 8, 0]"

definition wordOfBytes :: "string \<Rightarrow> word32" where
  "wordOfBytes bs = foldl (\<lambda>w c. push_bit 8 w OR byteOf c) 0 bs"

fun chunks :: "nat \<Rightarrow> nat \<Rightarrow> 'a list \<Rightarrow> 'a list list" where
  "chunks n 0 xs = []"
| "chunks n (Suc k) xs = take n xs # chunks n k (drop n xs)"

text \<open>SHA-1 (FIPS 180-4): padding, the message schedule, eighty rounds for each block.\<close>

definition sha1Pad :: "string \<Rightarrow> string" where
  "sha1Pad m =
    m @ [CHR 0x80] @ replicate ((119 - length m mod 64) mod 64) (CHR 0x00)
      @ be32 (of_nat (length m * 8 div 2 ^ 32)) @ be32 (of_nat (length m * 8))"

primrec sha1Schedule :: "nat \<Rightarrow> word32 list \<Rightarrow> word32 list" where
  "sha1Schedule 0 w = w"
| "sha1Schedule (Suc k) w =
    sha1Schedule k
      (w @ [word_rotl 1 (w ! (length w - 3) XOR w ! (length w - 8)
                         XOR w ! (length w - 14) XOR w ! (length w - 16))])"

type_synonym sha1State = "word32 \<times> word32 \<times> word32 \<times> word32 \<times> word32"

definition sha1Round :: "word32 list \<Rightarrow> sha1State \<Rightarrow> nat \<Rightarrow> sha1State" where
  "sha1Round w st t =
    (case st of (a, b, c, d, e) \<Rightarrow>
       let f = (if t < 20 then (b AND c) OR (NOT b AND d)
                else if t < 40 then b XOR c XOR d
                else if t < 60 then (b AND c) OR (b AND d) OR (c AND d)
                else b XOR c XOR d);
           k = (if t < 20 then 0x5A827999
                else if t < 40 then 0x6ED9EBA1
                else if t < 60 then 0x8F1BBCDC
                else 0xCA62C1D6)
       in (word_rotl 5 a + f + e + k + w ! t, a, word_rotl 30 b, c, d))"

definition sha1Block :: "sha1State \<Rightarrow> string \<Rightarrow> sha1State" where
  "sha1Block h blk =
    (let w = sha1Schedule 64 (map wordOfBytes (chunks 4 16 blk))
     in case (h, foldl (sha1Round w) h [0..<80]) of
          ((h0, h1, h2, h3, h4), (a, b, c, d, e)) \<Rightarrow> (h0 + a, h1 + b, h2 + c, h3 + d, h4 + e))"

definition sha1 :: "string \<Rightarrow> string" where
  "sha1 m =
    (let p = sha1Pad m in
     case foldl sha1Block (0x67452301, 0xEFCDAB89, 0x98BADCFE, 0x10325476, 0xC3D2E1F0)
            (chunks 64 (length p div 64) p) of
       (h0, h1, h2, h3, h4) \<Rightarrow> be32 h0 @ be32 h1 @ be32 h2 @ be32 h3 @ be32 h4)"

text \<open>HMAC (RFC 2104) over SHA-1, whose block size is 64 bytes.\<close>

definition xorByte :: "nat \<Rightarrow> char \<Rightarrow> char" where
  "xorByte k c = char_of ((of_char c :: nat) XOR k)"

definition hmacSHA1 :: "string \<Rightarrow> string \<Rightarrow> string" where
  "hmacSHA1 key m =
    (let k0 = (if length key > 64 then sha1 key else key);
         k = k0 @ replicate (64 - length k0) (CHR 0x00)
     in sha1 (map (xorByte 0x5C) k @ sha1 (map (xorByte 0x36) k @ m)))"

text \<open>\<^verbatim>\<open>base64.StdEncoding.EncodeToString\<close>: the standard alphabet, padded with \<open>=\<close>.\<close>

definition encodeStd :: string where
  "encodeStd = ''ABCDEFGHIJKLMNOPQRSTUVWXYZabcdefghijklmnopqrstuvwxyz0123456789+/''"

fun base64Encode :: "string \<Rightarrow> string" where
  "base64Encode [] = []"
| "base64Encode [a] =
    (let v = (of_char a :: nat) * 65536
     in [encodeStd ! (v div 262144), encodeStd ! (v div 4096 mod 64), CHR ''='', CHR ''=''])"
| "base64Encode [a, b] =
    (let v = (of_char a :: nat) * 65536 + of_char b * 256
     in [encodeStd ! (v div 262144), encodeStd ! (v div 4096 mod 64),
         encodeStd ! (v div 64 mod 64), CHR ''=''])"
| "base64Encode (a # b # c # rest) =
    (let v = (of_char a :: nat) * 65536 + of_char b * 256 + of_char c
     in [encodeStd ! (v div 262144), encodeStd ! (v div 4096 mod 64),
         encodeStd ! (v div 64 mod 64), encodeStd ! (v mod 64)] @ base64Encode rest)"

text \<open>\<^verbatim>\<open>hex.EncodeToString\<close>: two lower-case hexadecimal digits for each byte.\<close>

definition hextable :: string where
  "hextable = ''0123456789abcdef''"

definition hexEncode :: "string \<Rightarrow> string" where
  "hexEncode bs = concat (map (\<lambda>c. [hextable ! (of_char c div 16), hextable ! (of_char c mod 16)]) bs)"

section \<open>The signature engine\<close>

datatype error =
  GeneratingNonce
  | ParsingURL url_error
  | CreatingTweetRequest url_error
  | PostingTweet string
  | ReadingTweetResponse
  | TwitterAPIError nat string

record Config =
  APIKey :: string
  APISecret :: string
  AccessToken :: string
  AccessSecret :: string

definition mediaUploadEndpoint :: string where
  "mediaUploadEndpoint = ''https://upload.twitter.com/1.1/media/upload.json''"

definition tweetEndpoint :: string where
  "tweetEndpoint = ''https://api.twitter.com/2/tweets''"

text \<open>\<^verbatim>\<open>fmt.Sprintf("%d", n)\<close>: the decimal digits of an integer.\<close>

function showNat :: "nat \<Rightarrow> string" where
  "showNat n = (if n < 10 then [char_of (48 + n)] else showNat (n div 10) @ [char_of (48 + n mod 10)])"
  by pat_completeness auto
termination
  by (relation "measure id") auto

definition showInt :: "int \<Rightarrow> string" where
  "showInt i = (if i < 0 then CHR ''-'' # showNat (nat (- i)) else showNat (nat i))"

text \<open>
  A Go \<^verbatim>\<open>map[string]string\<close> is modelled as an association list; the order of its
  entries stands for the order in which Go happens to range over the map. Reading a
  key that is absent gives the empty string, writing a key replaces its value.
\<close>

type_synonym StringMap = "(string \<times> string) list"

definition getKey :: "StringMap \<Rightarrow> string \<Rightarrow> string" where
  "getKey m k = (case map_of m k of Some v \<Rightarrow> v | None \<Rightarrow> [])"

fun setKey :: "StringMap \<Rightarrow> string \<Rightarrow> string \<Rightarrow> StringMap" where
  "setKey [] k v = [(k, v)]"
| "setKey ((k', v') # m) k v = (if k' = k then (k', v) # m else (k', v') # setKey m k v)"

definition valuesOf :: "Values \<Rightarrow> string \<Rightarrow> string list" where
  "valuesOf m k = (case map_of m k of Some vs \<Rightarrow> vs | None \<Rightarrow> [])"

text \<open>
  \<^verbatim>\<open>generateNonce\<close>. The argument is what \<^verbatim>\<open>rand.Read\<close> did with the buffer of 16 bytes:
  \<open>None\<close> when it failed, the bytes it read otherwise.
\<close>

definition generateNonce :: "string option \<Rightarrow> error + string" where
  "generateNonce rnd =
    (case rnd of
       None \<Rightarrow> Inl GeneratingNonce
     | Some buf \<Rightarrow> Inr (hexEncode buf))"

definition normalizeURL :: "string \<Rightarrow> error + (string \<times> Values)" where
  "normalizeURL raw =
    (case Parse raw of
       Inl e \<Rightarrow> Inl (ParsingURL e)
     | Inr parsed \<Rightarrow>
         let scheme = ToLower (Scheme parsed);
             host = ToLower (Host parsed);
             path0 = EscapedPath parsed;
             path = (if path0 = [] then ''/'' else path0);
             base = scheme @ ''://'' @ host @ path
         in Inr (base, Query parsed))"

text \<open>
  \<^verbatim>\<open>encodeValues\<close>: the keys sorted, the values of each key sorted, each pair written
  \<open>key=value\<close> with both sides percent-encoded, the pairs joined by \<open>&\<close>.
\<close>

definition encodeValues :: "Values \<Rightarrow> string" where
  "encodeValues vals =
    (if vals = [] then []
     else Join (concat (map (\<lambda>k. map (\<lambda>v. percentEncode k @ ''='' @ percentEncode v)
                                   (sort (valuesOf vals k)))
                            (sort (map fst vals)))) ''&'')"

text \<open>The three loops of \<^verbatim>\<open>buildOAuth1Header\<close> that fill \<^verbatim>\<open>signingValues\<close>.\<close>

definition addParams :: "Values \<Rightarrow> StringMap \<Rightarrow> Values" where
  "addParams m ps = foldl (\<lambda>m kv. Add m (fst kv) (snd kv)) m ps"

definition addQuery :: "Values \<Rightarrow> Values \<Rightarrow> Values" where
  "addQuery m q = foldl (\<lambda>m kvs. foldl (\<lambda>m v. Add m (fst kvs) v) m (snd kvs)) m q"

definition signingValuesOf :: "StringMap \<Rightarrow> StringMap \<Rightarrow> Values \<Rightarrow> Values" where
  "signingValuesOf params oauthParams queryParams =
     addQuery (addParams (addParams [] params) oauthParams) queryParams"

definition oauthParamsOf :: "Config \<Rightarrow> string \<Rightarrow> string \<Rightarrow> StringMap" where
  "oauthParamsOf cfg nonce timestamp =
    [(''oauth_consumer_key'', APIKey cfg),
     (''oauth_nonce'', nonce),
     (''oauth_signature_method'', ''HMAC-SHA1''),
     (''oauth_timestamp'', timestamp),
     (''oauth_token'', AccessToken cfg),
     (''oauth_version'', ''1.0'')]"

text \<open>The header line: every OAuth parameter as \<open>key="value"\<close>, by sorted key.\<close>

definition headerOf :: "StringMap \<Rightarrow> string" where
  "headerOf oauthParams =
    ''OAuth '' @ Join (map (\<lambda>k. percentEncode k @ ''=\"'' @ percentEncode (getKey oauthParams k) @ ''\"'')
                           (sort (map fst oauthParams))) '', ''"

text \<open>
  \<^verbatim>\<open>buildOAuth1Header\<close>, with its local variables kept in a record so that the theorems
  can speak of them. Besides the arguments of the Go function it takes the two
  readings of the outside world: \<open>rnd\<close>, what \<^verbatim>\<open>rand.Read\<close> did, and \<open>unixNow\<close>, the
  value of \<^verbatim>\<open>time.Now().Unix()\<close>.
\<close>

record signingVars =
  nonce :: string
  timestamp :: string
  baseURL :: string
  queryParams :: Values
  parameterString :: string
  baseString :: string
  signingKey :: string
  signature :: string
  header :: string

definition buildOAuth1HeaderVars ::
  "string \<Rightarrow> string \<Rightarrow> StringMap \<Rightarrow> Config \<Rightarrow> string option \<Rightarrow> int \<Rightarrow> error + signingVars" where
  "buildOAuth1HeaderVars method rawURL params cfg rnd unixNow =
    (case generateNonce rnd of
       Inl e \<Rightarrow> Inl e
     | Inr nonce1 \<Rightarrow>
         let timestamp1 = showInt unixNow;
             oauthParams = oauthParamsOf cfg nonce1 timestamp1
         in case normalizeURL rawURL of
              Inl e \<Rightarrow> Inl e
            | Inr (baseURL1, queryParams1) \<Rightarrow>
                let signingValues = signingValuesOf params oauthParams queryParams1;
                    parameterString1 = encodeValues signingValues;
                    baseString1 = ToUpper method @ ''&'' @ percentEncode baseURL1 @ ''&''
                                    @ percentEncode parameterString1;
                    signingKey1 = percentEncode (APISecret cfg) @ ''&'' @ percentEncode (AccessSecret cfg);
                    signature1 = base64Encode (hmacSHA1 signingKey1 baseString1);
                    oauthParams' = setKey oauthParams ''oauth_signature'' signature1
                in Inr \<lparr>nonce = nonce1, timestamp = timestamp1, baseURL = baseURL1,
                         queryParams = queryParams1, parameterString = parameterString1,
                         baseString = baseString1, signingKey = signingKey1,
                         signature = signature1, header = headerOf oauthParams'\<rparr>)"

definition buildOAuth1Header ::
  "string \<Rightarrow> string \<Rightarrow> StringMap \<Rightarrow> Config \<Rightarrow> string option \<Rightarrow> int \<Rightarrow> error + string" where
  "buildOAuth1Header method rawURL params cfg rnd unixNow =
    (case buildOAuth1HeaderVars method rawURL params cfg rnd unixNow of
       Inl e \<Rightarrow> Inl e
     | Inr v \<Rightarrow> Inr (header v))"

text \<open>
  The parameter string as the specification words it: the three sources in one flat
  list of pairs, every key and value percent-encoded, the pairs sorted by encoded key and
  then encoded value, joined as \<open>key=value\<close> by \<open>&\<close>.
\<close>

definition flatten :: "Values \<Rightarrow> StringMap" where
  "flatten q = concat (map (\<lambda>kvs. map (Pair (fst kvs)) (snd kvs)) q)"

definition specParameterString :: "StringMap \<Rightarrow> StringMap \<Rightarrow> Values \<Rightarrow> string" where
  "specParameterString body oauth query =
    Join (map (\<lambda>kv. fst kv @ ''='' @ snd kv)
              (sort (map (\<lambda>kv. (percentEncode (fst kv), percentEncode (snd kv)))
                         (body @ oauth @ flatten query)))) ''&''"

text \<open>What the code builds: the pairs sorted by key and value as they are, then encoded.\<close>

definition rawSortedParameterString :: "StringMap \<Rightarrow> StringMap \<Rightarrow> Values \<Rightarrow> string" where
  "rawSortedParameterString body oauth query =
    Join (map (\<lambda>kv. percentEncode (fst kv) @ ''='' @ percentEncode (snd kv))
              (sort (body @ oauth @ flatten query))) ''&''"

text \<open>The pairs in the order in which \<^verbatim>\<open>encodeValues\<close> writes them.\<close>

definition sortedPairs :: "Values \<Rightarrow> StringMap" where
  "sortedPairs m = concat (map (\<lambda>k. map (Pair k) (sort (valuesOf m k))) (sort (map fst m)))"

section \<open>The tweet-create request\<close>

text \<open>
  A JSON document is modelled by its value, not by its bytes: \<^verbatim>\<open>json.Marshal\<close> gives a
  value of this type and \<^verbatim>\<open>json.Unmarshal\<close> reads one. White space, the escapes inside
  strings and the indentation of \<^verbatim>\<open>json.MarshalIndent\<close> are below this model.
\<close>

datatype json =
  JNull
  | JBool bool
  | JNumber string
  | JString string
  | JArray "json list"
  | JObject "(string \<times> json) list"

datatype body = JSONBody json | FormBody string

record request =
  Method :: string
  Target :: string
  Headers :: StringMap
  Body :: body

text \<open>
  What \<^verbatim>\<open>client.Do\<close> and \<^verbatim>\<open>io.ReadAll\<close> give back: a transport error, or a status code
  with the bytes of the body (\<open>None\<close> when reading the body fails).
\<close>

record response =
  StatusCode :: nat
  RespBody :: "string option"

type_synonym transport = "request \<Rightarrow> string + response"

text \<open>\<^verbatim>\<open>strings.TrimSpace\<close> on the ASCII white space (Go also trims the Unicode spaces).\<close>

definition isSpace :: "char \<Rightarrow> bool" where
  "isSpace c \<longleftrightarrow> c \<in> set [CHR '' '', CHR 0x09, CHR 0x0A, CHR 0x0B, CHR 0x0C, CHR 0x0D]"

definition TrimSpace :: "string \<Rightarrow> string" where
  "TrimSpace s = rev (dropWhile isSpace (rev (dropWhile isSpace s)))"

text \<open>\<^verbatim>\<open>json.Marshal(tweetPayload{...})\<close>: the field \<open>media\<close> is left out when the pointer is nil.\<close>

definition tweetPayload :: "string \<Rightarrow> string list \<Rightarrow> json" where
  "tweetPayload txt mediaIDs =
    JObject ((''text'', JString txt) #
             (if length mediaIDs > 0
              then [(''media'', JObject [(''media_ids'', JArray (map JString mediaIDs))])]
              else []))"

text \<open>
  The request \<^verbatim>\<open>postTweet\<close> hands to \<^verbatim>\<open>client.Do\<close>. \<^verbatim>\<open>http.NewRequest\<close> fails when the URL
  does not parse; the header is built from the method, the endpoint and no body
  parameter (\<^verbatim>\<open>nil\<close>).
\<close>

definition postTweetRequest ::
  "Config \<Rightarrow> string \<Rightarrow> string list \<Rightarrow> string option \<Rightarrow> int \<Rightarrow> error + request" where
  "postTweetRequest cfg txt mediaIDs rnd unixNow =
    (let payload = tweetPayload txt mediaIDs
     in case Parse tweetEndpoint of
          Inl e \<Rightarrow> Inl (CreatingTweetRequest e)
        | Inr u \<Rightarrow>
            (case buildOAuth1Header ''POST'' tweetEndpoint [] cfg rnd unixNow of
               Inl e \<Rightarrow> Inl e
             | Inr hdr \<Rightarrow>
                 Inr \<lparr>Method = ''POST'', Target = tweetEndpoint,
                      Headers = setKey (setKey [] ''Content-Type'' ''application/json'')
                                  ''Authorization'' hdr,
                      Body = JSONBody payload\<rparr>))"

definition postTweet ::
  "transport \<Rightarrow> Config \<Rightarrow> string \<Rightarrow> string list \<Rightarrow> string option \<Rightarrow> int \<Rightarrow> error + unit" where
  "postTweet client cfg txt mediaIDs rnd unixNow =
    (case postTweetRequest cfg txt mediaIDs rnd unixNow of
       Inl e \<Rightarrow> Inl e
     | Inr req \<Rightarrow>
         (case client req of
            Inl e \<Rightarrow> Inl (PostingTweet e)
          | Inr resp \<Rightarrow>
              (case RespBody resp of
                 None \<Rightarrow> Inl ReadingTweetResponse
               | Some respBody \<Rightarrow>
                   if StatusCode resp \<ge> 300
                   then Inl (TwitterAPIError (StatusCode resp) (TrimSpace respBody))
                   else Inr ())))"

text \<open>Credentials and random bytes for the worked examples.\<close>

definition demoConfig :: Config where
  "demoConfig = \<lparr>APIKey = ''K'', APISecret = ''S'', AccessToken = ''T'', AccessSecret = ''TS''\<rparr>"

definition demoRandom :: string where
  "demoRandom = replicate 16 (CHR 0x00)"

section \<open>Time\<close>

text \<open>
  A \<^verbatim>\<open>time.Time\<close> is modelled by what it shows: the calendar date and the clock time in
  its own zone, and the offset of that zone east of UTC in seconds. The instant is
  computed from these. The zone of the process is taken to have one offset, so a
  \<^verbatim>\<open>*time.Location\<close> is modelled by its offset.
\<close>

record Time =
  Year :: int
  Month :: nat
  Day :: nat
  Hour :: nat
  Minute :: nat
  Second :: nat
  Nanosecond :: nat
  Offset :: int

definition isLeap :: "int \<Rightarrow> bool" where
  "isLeap year \<longleftrightarrow> year mod 4 = 0 \<and> (year mod 100 \<noteq> 0 \<or> year mod 400 = 0)"

definition daysIn :: "nat \<Rightarrow> int \<Rightarrow> nat" where
  "daysIn m year =
    (if m = 2 then (if isLeap year then 29 else 28)
     else if m = 4 \<or> m = 6 \<or> m = 9 \<or> m = 11 then 30 else 31)"

definition daysBefore :: "nat list" where
  "daysBefore = [0, 31, 59, 90, 120, 151, 181, 212, 243, 273, 304, 334, 365]"

text \<open>
  \<^verbatim>\<open>daysSinceEpoch\<close> counts the days from the first of January of the year 1 to the first
  of January of the given year, by cycles of 400, 100, 4 and 1 years. (Go counts from
  a year far in the past so that the count is unsigned; the difference is a constant.)
\<close>

definition daysSinceEpoch :: "int \<Rightarrow> int" where
  "daysSinceEpoch year =
    (let y = year - 1;
         n400 = y div 400; y1 = y - 400 * n400;
         n100 = y1 div 100; y2 = y1 - 100 * n100;
         n4 = y2 div 4; y3 = y2 - 4 * n4
     in 146097 * n400 + 36524 * n100 + 1461 * n4 + 365 * y3)"

definition dayNumber :: "int \<Rightarrow> nat \<Rightarrow> int \<Rightarrow> int" where
  "dayNumber year m d =
    daysSinceEpoch year + int (daysBefore ! (m - 1))
      + (if isLeap year \<and> m \<ge> 3 then 1 else 0) + (d - 1)"

text \<open>Seconds since the first of January 1970 UTC, as \<^verbatim>\<open>t.Unix()\<close> gives them.\<close>

definition unixSec :: "Time \<Rightarrow> int" where
  "unixSec t =
    (dayNumber (Year t) (Month t) (int (Day t)) - dayNumber 1970 1 1) * 86400
      + int (Hour t) * 3600 + int (Minute t) * 60 + int (Second t) - Offset t"

text \<open>\<^verbatim>\<open>t.UnixNano()\<close>, without the wrap-around of \<^verbatim>\<open>int64\<close> outside the years 1678 to 2262.\<close>

definition UnixNano :: "Time \<Rightarrow> int" where
  "UnixNano t = unixSec t * 1000000000 + int (Nanosecond t)"

definition Before :: "Time \<Rightarrow> Time \<Rightarrow> bool" where
  "Before t u \<longleftrightarrow> unixSec t < unixSec u \<or> (unixSec t = unixSec u \<and> Nanosecond t < Nanosecond u)"

definition Equal :: "Time \<Rightarrow> Time \<Rightarrow> bool" where
  "Equal t u \<longleftrightarrow> unixSec t = unixSec u \<and> Nanosecond t = Nanosecond u"

text \<open>
  \<^verbatim>\<open>time.Date\<close> accepts values outside their usual ranges and carries them over: the
  month into the year, nanoseconds into seconds and so on into the day, and a day
  outside the month into the months before or after.
\<close>

definition norm :: "int \<Rightarrow> int \<Rightarrow> int \<Rightarrow> int \<times> int" where
  "norm hi lo base = (hi + lo div base, lo mod base)"

function rollBackward :: "int \<Rightarrow> nat \<Rightarrow> int \<Rightarrow> int \<times> nat \<times> int" where
  "rollBackward y m d =
    (if d < 1
     then (if m \<le> 1 then rollBackward (y - 1) 12 (d + int (daysIn 12 (y - 1)))
           else rollBackward y (m - 1) (d + int (daysIn (m - 1) y)))
     else (y, m, d))"
  by pat_completeness auto
termination
  by (relation "measure (\<lambda>(y, m, d). nat (1 - d))") (auto simp: daysIn_def)

function rollForward :: "int \<Rightarrow> nat \<Rightarrow> int \<Rightarrow> int \<times> nat \<times> nat" where
  "rollForward y m d =
    (if d > int (daysIn m y)
     then (if m \<ge> 12 then rollForward (y + 1) 1 (d - int (daysIn m y))
           else rollForward y (m + 1) (d - int (daysIn m y)))
     else (y, m, nat d))"
  by pat_completeness auto
termination
  by (relation "measure (\<lambda>(y, m, d). nat d)") (auto simp: daysIn_def)

definition Date :: "int \<Rightarrow> int \<Rightarrow> int \<Rightarrow> int \<Rightarrow> int \<Rightarrow> int \<Rightarrow> int \<Rightarrow> int \<Rightarrow> Time" where
  "Date year month day hour minute sec nsec loc =
    (let (year1, m) = norm year (month - 1) 12;
         (sec1, nsec1) = norm sec nsec 1000000000;
         (min1, sec2) = norm minute sec1 60;
         (hour1, min2) = norm hour min1 60;
         (day1, hour2) = norm day hour1 24;
         (y2, m2, d2) = rollBackward year1 (nat m + 1) day1;
         (y3, m3, d3) = rollForward y2 m2 d2
     in \<lparr>Year = y3, Month = m3, Day = d3, Hour = nat hour2, Minute = nat min2,
         Second = nat sec2, Nanosecond = nat nsec1, Offset = loc\<rparr>)"

definition UTC :: int where
  "UTC = 0"

section \<open>Reading times\<close>

text \<open>
  \<^verbatim>\<open>time.Parse\<close> walks through the layout, which is a sequence of literal texts and of
  fields. Only the fields of the layouts of this program are modelled; each layout is
  given as the sequence that Go cuts its layout string into.
\<close>

datatype chunk =
  Lit string
  | StdLongYear
  | StdZeroMonth
  | StdZeroDay
  | StdHour
  | StdZeroMinute
  | StdZeroSecond
  | StdISO8601ColonTZ

record fields =
  fYear :: int
  fMonth :: int
  fDay :: int
  fHour :: nat
  fMin :: nat
  fSec :: nat
  fNsec :: nat
  fZone :: "int option"

definition digitVal :: "char \<Rightarrow> nat" where
  "digitVal c = of_char c - 48"

definition decimal :: "string \<Rightarrow> nat" where
  "decimal s = foldl (\<lambda>x c. x * 10 + digitVal c) 0 s"

definition cutspace :: "string \<Rightarrow> string" where
  "cutspace s = dropWhile (\<lambda>c. c = CHR '' '') s"

text \<open>
  \<^verbatim>\<open>skip\<close> removes a literal text of the layout from the front of the value; a space of
  the layout stands for any number of spaces of the value.
\<close>

function skip :: "string \<Rightarrow> string \<Rightarrow> string option" where
  "skip v [] = Some v"
| "skip v (p # ps) =
    (if p = CHR '' ''
     then (if v \<noteq> [] \<and> hd v \<noteq> CHR '' '' then None else skip (cutspace v) (cutspace ps))
     else (case v of
             [] \<Rightarrow> None
           | c # cs \<Rightarrow> if c = p then skip cs ps else None))"
  by pat_completeness auto
termination
  by (relation "measure (\<lambda>(v, p). length p)")
     (auto simp: cutspace_def less_Suc_eq_le length_dropWhile_le)

text \<open>\<^verbatim>\<open>getnum\<close> reads one or two digits, exactly two when \<open>fixed\<close>.\<close>

definition getnum :: "string \<Rightarrow> bool \<Rightarrow> (nat \<times> string) option" where
  "getnum s fixed =
    (case s of
       [] \<Rightarrow> None
     | c # r \<Rightarrow>
         if \<not> isDigit c then None
         else (case r of
                 [] \<Rightarrow> if fixed then None else Some (digitVal c, r)
               | d # r' \<Rightarrow>
                   if \<not> isDigit d then (if fixed then None else Some (digitVal c, r))
                   else Some (digitVal c * 10 + digitVal d, r')))"

definition commaOrPeriod :: "char \<Rightarrow> bool" where
  "commaOrPeriod c \<longleftrightarrow> c = CHR ''.'' \<or> c = CHR '',''"

text \<open>
  \<^verbatim>\<open>parseNanoseconds\<close> reads the digits after the separator as a fraction of a second;
  digits after the ninth are dropped. Its argument here is the run of digits.
\<close>

definition parseNanoseconds :: "string \<Rightarrow> nat" where
  "parseNanoseconds ds = (let ds9 = take 9 ds in decimal ds9 * 10 ^ (9 - length ds9))"

definition hasFraction :: "string \<Rightarrow> bool" where
  "hasFraction v \<longleftrightarrow> length v \<ge> 2 \<and> commaOrPeriod (v ! 0) \<and> isDigit (v ! 1)"

fun parseChunks :: "chunk list \<Rightarrow> string \<Rightarrow> fields \<Rightarrow> fields option" where
  "parseChunks [] v f = (if v = [] then Some f else None)"
| "parseChunks (Lit p # cs) v f =
    (case skip v p of None \<Rightarrow> None | Some v' \<Rightarrow> parseChunks cs v' f)"
| "parseChunks (StdLongYear # cs) v f =
    (if length v < 4 \<or> \<not> list_all isDigit (take 4 v) then None
     else parseChunks cs (drop 4 v) (f\<lparr>fYear := int (decimal (take 4 v))\<rparr>))"
| "parseChunks (StdZeroMonth # cs) v f =
    (case getnum v True of
       None \<Rightarrow> None
     | Some (n, v') \<Rightarrow>
         if n = 0 \<or> 12 < n then None else parseChunks cs v' (f\<lparr>fMonth := int n\<rparr>))"
| "parseChunks (StdZeroDay # cs) v f =
    (case getnum v True of
       None \<Rightarrow> None
     | Some (n, v') \<Rightarrow> parseChunks cs v' (f\<lparr>fDay := int n\<rparr>))"
| "parseChunks (StdHour # cs) v f =
    (case getnum v False of
       None \<Rightarrow> None
     | Some (n, v') \<Rightarrow> if 24 \<le> n then None else parseChunks cs v' (f\<lparr>fHour := n\<rparr>))"
| "parseChunks (StdZeroMinute # cs) v f =
    (case getnum v True of
       None \<Rightarrow> None
     | Some (n, v') \<Rightarrow> if 60 \<le> n then None else parseChunks cs v' (f\<lparr>fMin := n\<rparr>))"
| "parseChunks (StdZeroSecond # cs) v f =
    (case getnum v True of
       None \<Rightarrow> None
     | Some (n, v') \<Rightarrow>
         if 60 \<le> n then None
         else if hasFraction v'
         then (let ds = takeWhile isDigit (tl v')
               in parseChunks cs (dropWhile isDigit (tl v'))
                    (f\<lparr>fSec := n, fNsec := parseNanoseconds ds\<rparr>))
         else parseChunks cs v' (f\<lparr>fSec := n\<rparr>))"
| "parseChunks (StdISO8601ColonTZ # cs) v f =
    (if v \<noteq> [] \<and> hd v = CHR ''Z'' then parseChunks cs (tl v) (f\<lparr>fZone := Some 0\<rparr>)
     else if length v < 6 \<or> v ! 3 \<noteq> CHR '':'' then None
     else (case (getnum (take 2 (drop 1 v)) True, getnum (take 2 (drop 4 v)) True) of
             (Some (hr, r1), Some (mm, r2)) \<Rightarrow>
               if hr > 24 \<or> mm > 60 then None
               else if v ! 0 = CHR ''+''
               then parseChunks cs (drop 6 v) (f\<lparr>fZone := Some (int ((hr * 60 + mm) * 60))\<rparr>)
               else if v ! 0 = CHR ''-''
               then parseChunks cs (drop 6 v) (f\<lparr>fZone := Some (- int ((hr * 60 + mm) * 60))\<rparr>)
               else None
           | _ \<Rightarrow> None))"

definition noFields :: fields where
  "noFields = \<lparr>fYear = 0, fMonth = - 1, fDay = - 1, fHour = 0, fMin = 0, fSec = 0,
               fNsec = 0, fZone = None\<rparr>"

text \<open>
  \<^verbatim>\<open>time.Parse\<close>: a month or day that the layout does not have is the first; the day
  has to exist in its month; without a zone in the layout the time is in UTC. With a
  zone, the date and clock read are those of that zone.
\<close>

definition timeParse :: "chunk list \<Rightarrow> string \<Rightarrow> Time option" where
  "timeParse layout v =
    (case parseChunks layout v noFields of
       None \<Rightarrow> None
     | Some f \<Rightarrow>
         (let month = (if fMonth f < 0 then 1 else fMonth f);
              day = (if fDay f < 0 then 1 else fDay f)
          in if day < 1 \<or> day > int (daysIn (nat month) (fYear f)) then None
             else Some ((Date (fYear f) month day (int (fHour f)) (int (fMin f))
                           (int (fSec f)) (int (fNsec f)) UTC)
                        \<lparr>Offset := (case fZone f of None \<Rightarrow> UTC | Some z \<Rightarrow> z)\<rparr>)))"

text \<open>The layouts \<^verbatim>\<open>"2006-01-02 15:04:05"\<close>, \<^verbatim>\<open>"2006-01-02 15:04"\<close>, \<^verbatim>\<open>"01-02 15:04"\<close>, \<^verbatim>\<open>"15:04"\<close>.\<close>

definition layoutDateTimeSec :: "chunk list" where
  "layoutDateTimeSec = [StdLongYear, Lit ''-'', StdZeroMonth, Lit ''-'', StdZeroDay, Lit '' '',
                        StdHour, Lit '':'', StdZeroMinute, Lit '':'', StdZeroSecond]"

definition layoutDateTime :: "chunk list" where
  "layoutDateTime = [StdLongYear, Lit ''-'', StdZeroMonth, Lit ''-'', StdZeroDay, Lit '' '',
                     StdHour, Lit '':'', StdZeroMinute]"

definition layoutMonthDay :: "chunk list" where
  "layoutMonthDay = [StdZeroMonth, Lit ''-'', StdZeroDay, Lit '' '', StdHour, Lit '':'', StdZeroMinute]"

definition layoutClock :: "chunk list" where
  "layoutClock = [StdHour, Lit '':'', StdZeroMinute]"

text \<open>The layout \<^verbatim>\<open>time.RFC3339\<close>, \<^verbatim>\<open>"2006-01-02T15:04:05Z07:00"\<close>.\<close>

definition RFC3339 :: "chunk list" where
  "RFC3339 = [StdLongYear, Lit ''-'', StdZeroMonth, Lit ''-'', StdZeroDay, Lit ''T'',
              StdHour, Lit '':'', StdZeroMinute, Lit '':'', StdZeroSecond, StdISO8601ColonTZ]"

section \<open>Times in JSON\<close>

text \<open>\<^verbatim>\<open>appendInt\<close> writes an integer in decimal, with zeros in front up to the width.\<close>

definition appendInt :: "int \<Rightarrow> nat \<Rightarrow> string" where
  "appendInt x width =
    (if x < 0 then ''-'' else '''')
      @ replicate (width - length (showNat (nat \<bar>x\<bar>))) (CHR ''0'') @ showNat (nat \<bar>x\<bar>)"

text \<open>
  \<^verbatim>\<open>appendNano\<close> for the layout \<^verbatim>\<open>.999999999\<close>: nothing when there are no nanoseconds,
  otherwise nine digits after a point, without the zeros at the end.
\<close>

definition appendNano :: "nat \<Rightarrow> string" where
  "appendNano nanosec =
    (if nanosec = 0 then ''''
     else ''.'' @ rev (dropWhile (\<lambda>c. c = CHR ''0'') (rev (appendInt (int nanosec) 9))))"

text \<open>Go divides towards zero.\<close>

definition quo :: "int \<Rightarrow> int \<Rightarrow> int" where
  "quo a b = (if a < 0 then - ((- a) div b) else a div b)"

definition appendZone :: "int \<Rightarrow> string" where
  "appendZone offset =
    (if offset = 0 then ''Z''
     else (let zone = quo offset 60
           in (if zone < 0 then ''-'' else ''+'')
              @ appendInt (\<bar>zone\<bar> div 60) 2 @ '':'' @ appendInt (\<bar>zone\<bar> mod 60) 2))"

text \<open>\<^verbatim>\<open>appendFormatRFC3339\<close> with nanoseconds, the layout \<^verbatim>\<open>time.RFC3339Nano\<close>.\<close>

definition appendFormatRFC3339 :: "Time \<Rightarrow> string" where
  "appendFormatRFC3339 t =
    appendInt (Year t) 4 @ ''-'' @ appendInt (int (Month t)) 2 @ ''-'' @ appendInt (int (Day t)) 2
      @ ''T'' @ appendInt (int (Hour t)) 2 @ '':'' @ appendInt (int (Minute t)) 2
      @ '':'' @ appendInt (int (Second t)) 2 @ appendNano (Nanosecond t) @ appendZone (Offset t)"

text \<open>
  \<^verbatim>\<open>appendStrictRFC3339\<close> refuses what RFC 3339 cannot say: a year that is not four
  digits wide and a zone of 24 hours or more. \<^verbatim>\<open>Time.MarshalJSON\<close> is this text as a
  JSON string.
\<close>

definition appendStrictRFC3339 :: "Time \<Rightarrow> string option" where
  "appendStrictRFC3339 t =
    (let b = appendFormatRFC3339 t
     in if b ! 4 \<noteq> CHR ''-'' then None
        else if last b \<noteq> CHR ''Z''
                \<and> (isDigit (b ! (length b - 6))
                     \<or> decimal (take 2 (drop (length b - 5) b)) \<ge> 24)
        then None
        else Some b)"

text \<open>
  \<^verbatim>\<open>parseRFC3339\<close> reads the strict form: fields of fixed width within their ranges, an
  optional fraction after a point, and \<open>Z\<close> or an offset of hours below 24 and minutes
  below 60.
\<close>

definition parseUint :: "string \<Rightarrow> nat \<Rightarrow> nat \<Rightarrow> nat option" where
  "parseUint s lo hi =
    (if list_all isDigit s \<and> lo \<le> decimal s \<and> decimal s \<le> hi then Some (decimal s) else None)"

definition substring :: "string \<Rightarrow> nat \<Rightarrow> nat \<Rightarrow> string" where
  "substring s i j = take (j - i) (drop i s)"

definition parseZone :: "string \<Rightarrow> int option" where
  "parseZone s =
    (if s = ''Z'' then Some 0
     else if length s \<noteq> 6 then None
     else (case (parseUint (substring s 1 3) 0 23, parseUint (substring s 4 6) 0 59) of
             (Some hr, Some mm) \<Rightarrow>
               if s ! 3 \<noteq> CHR '':'' then None
               else if s ! 0 = CHR ''+'' then Some (int ((hr * 60 + mm) * 60))
               else if s ! 0 = CHR ''-'' then Some (- int ((hr * 60 + mm) * 60))
               else None
           | _ \<Rightarrow> None))"

definition parseRFC3339 :: "string \<Rightarrow> Time option" where
  "parseRFC3339 s =
    (if length s < 19 then None
     else (case parseUint (substring s 0 4) 0 9999 of None \<Rightarrow> None | Some year \<Rightarrow>
          (case parseUint (substring s 5 7) 1 12 of None \<Rightarrow> None | Some month \<Rightarrow>
          (case parseUint (substring s 8 10) 1 (daysIn month (int year)) of None \<Rightarrow> None | Some day \<Rightarrow>
          (case parseUint (substring s 11 13) 0 23 of None \<Rightarrow> None | Some hour \<Rightarrow>
          (case parseUint (substring s 14 16) 0 59 of None \<Rightarrow> None | Some minute \<Rightarrow>
          (case parseUint (substring s 17 19) 0 59 of None \<Rightarrow> None | Some sec \<Rightarrow>
             if \<not> (s ! 4 = CHR ''-'' \<and> s ! 7 = CHR ''-'' \<and> s ! 10 = CHR ''T''
                    \<and> s ! 13 = CHR '':'' \<and> s ! 16 = CHR '':'') then None
             else (let r = drop 19 s;
                       frac = (length r \<ge> 2 \<and> r ! 0 = CHR ''.'' \<and> isDigit (r ! 1));
                       nsec = (if frac then parseNanoseconds (takeWhile isDigit (tl r)) else 0);
                       r' = (if frac then dropWhile isDigit (tl r) else r)
                   in (case parseZone r' of
                         None \<Rightarrow> None
                       | Some zoneOffset \<Rightarrow>
                           Some ((Date (int year) (int month) (int day) (int hour) (int minute)
                                    (int sec) (int nsec) UTC)\<lparr>Offset := zoneOffset\<rparr>))))))))))"

text \<open>
  \<^verbatim>\<open>parseStrictRFC3339\<close> tries the strict form first and then falls back on
  \<^verbatim>\<open>time.Parse\<close> with the layout \<^verbatim>\<open>time.RFC3339\<close>, which is more lenient (an hour of one
  digit, a comma before the fraction, an offset of 24 hours).
\<close>

definition parseStrictRFC3339 :: "string \<Rightarrow> Time option" where
  "parseStrictRFC3339 b =
    (case parseRFC3339 b of Some t \<Rightarrow> Some t | None \<Rightarrow> timeParse RFC3339 b)"

section \<open>The schedule store\<close>

record scheduledTweet =
  Text :: string
  Image :: string
  ScheduleTime :: Time
  ID :: string

text \<open>The zero value of \<^verbatim>\<open>time.Time\<close> is the first instant of the year 1 in UTC.\<close>

definition zeroTime :: Time where
  "zeroTime = \<lparr>Year = 1, Month = 1, Day = 1, Hour = 0, Minute = 0, Second = 0,
               Nanosecond = 0, Offset = UTC\<rparr>"

definition zeroTweet :: scheduledTweet where
  "zeroTweet = \<lparr>Text = '''', Image = '''', ScheduleTime = zeroTime, ID = ''''\<rparr>"

text \<open>
  A Go slice is a list or \<^verbatim>\<open>nil\<close>. The \<^verbatim>\<open>nil\<close> slice has no elements, \<^verbatim>\<open>append\<close> makes a list
  of it, and \<^verbatim>\<open>json.Marshal\<close> writes it as \<^verbatim>\<open>null\<close>, not as \<^verbatim>\<open>[]\<close>.
\<close>

type_synonym 'a slice = "'a list option"

definition elems :: "'a slice \<Rightarrow> 'a list" where
  "elems s = (case s of None \<Rightarrow> [] | Some xs \<Rightarrow> xs)"

definition len :: "'a slice \<Rightarrow> nat" where
  "len s = length (elems s)"

definition appendSlice :: "'a slice \<Rightarrow> 'a \<Rightarrow> 'a slice" where
  "appendSlice s x = Some (elems s @ [x])"

datatype ioError =
  NotExist
  | PermissionDenied
  | SyntaxError
  | UnmarshalTypeError
  | TimeParseError
  | MarshalError

text \<open>
  \<^verbatim>\<open>json.Unmarshal\<close> finds the field of a key by its exact name and otherwise by its
  folded name: letters are compared without case, and the long s and the Kelvin sign
  count as \<open>s\<close> and \<open>k\<close>. Every other rune outside ASCII folds to a rune outside ASCII,
  so its bytes are kept here.
\<close>

definition upperByte :: "char \<Rightarrow> char" where
  "upperByte c = (if isLower c then char_of (of_char c - (32::nat)) else c)"

fun foldName :: "string \<Rightarrow> string" where
  "foldName [] = []"
| "foldName (a # s) =
    (if a = CHR 0xC5 \<and> take 1 s = [CHR 0xBF] then CHR ''S'' # foldName (drop 1 s)
     else if a = CHR 0xE2 \<and> take 2 s = [CHR 0x84, CHR 0xAA] then CHR ''K'' # foldName (drop 2 s)
     else upperByte a # foldName s)"

datatype field = FText | FImage | FScheduleTime | FID

definition fieldName :: "field \<Rightarrow> string" where
  "fieldName f = (case f of FText \<Rightarrow> ''text'' | FImage \<Rightarrow> ''image''
                   | FScheduleTime \<Rightarrow> ''schedule_time'' | FID \<Rightarrow> ''id'')"

definition structFields :: "field list" where
  "structFields = [FText, FImage, FScheduleTime, FID]"

definition fieldOf :: "string \<Rightarrow> field option" where
  "fieldOf key =
    (case find (\<lambda>f. fieldName f = key) structFields of
       Some f \<Rightarrow> Some f
     | None \<Rightarrow> find (\<lambda>f. foldName (fieldName f) = foldName key) structFields)"

text \<open>
  A JSON \<^verbatim>\<open>null\<close> leaves the field as it is; a string field takes a JSON string and
  nothing else; a time takes a JSON string in the form of RFC 3339. The texts of the
  program are taken to be valid UTF-8, which \<^verbatim>\<open>json.Marshal\<close> writes without change. A
  time written with escape sequences is refused by Go, which reads the undecoded
  text, and accepted here.
\<close>

definition decodeString :: "json \<Rightarrow> string \<Rightarrow> ioError + string" where
  "decodeString v old =
    (case v of JNull \<Rightarrow> Inr old | JString s \<Rightarrow> Inr s | _ \<Rightarrow> Inl UnmarshalTypeError)"

definition UnmarshalJSON :: "json \<Rightarrow> Time \<Rightarrow> ioError + Time" where
  "UnmarshalJSON v old =
    (case v of
       JNull \<Rightarrow> Inr old
     | JString s \<Rightarrow> (case parseStrictRFC3339 s of None \<Rightarrow> Inl TimeParseError | Some t \<Rightarrow> Inr t)
     | _ \<Rightarrow> Inl TimeParseError)"

definition decodeMember :: "scheduledTweet \<Rightarrow> string \<times> json \<Rightarrow> ioError + scheduledTweet" where
  "decodeMember tw kv =
    (case fieldOf (fst kv) of
       None \<Rightarrow> Inr tw
     | Some FText \<Rightarrow> map_sum id (\<lambda>s. tw\<lparr>Text := s\<rparr>) (decodeString (snd kv) (Text tw))
     | Some FImage \<Rightarrow> map_sum id (\<lambda>s. tw\<lparr>Image := s\<rparr>) (decodeString (snd kv) (Image tw))
     | Some FScheduleTime \<Rightarrow>
         map_sum id (\<lambda>t. tw\<lparr>ScheduleTime := t\<rparr>) (UnmarshalJSON (snd kv) (ScheduleTime tw))
     | Some FID \<Rightarrow> map_sum id (\<lambda>s. tw\<lparr>ID := s\<rparr>) (decodeString (snd kv) (ID tw)))"

fun decodeMembers :: "scheduledTweet \<Rightarrow> (string \<times> json) list \<Rightarrow> ioError + scheduledTweet" where
  "decodeMembers tw [] = Inr tw"
| "decodeMembers tw (kv # kvs) =
    (case decodeMember tw kv of Inl e \<Rightarrow> Inl e | Inr tw' \<Rightarrow> decodeMembers tw' kvs)"

definition decodeTweet :: "json \<Rightarrow> ioError + scheduledTweet" where
  "decodeTweet v =
    (case v of
       JNull \<Rightarrow> Inr zeroTweet
     | JObject kvs \<Rightarrow> decodeMembers zeroTweet kvs
     | _ \<Rightarrow> Inl UnmarshalTypeError)"

fun decodeAll :: "json list \<Rightarrow> ioError + scheduledTweet list" where
  "decodeAll [] = Inr []"
| "decodeAll (v # vs) =
    (case decodeTweet v of
       Inl e \<Rightarrow> Inl e
     | Inr tw \<Rightarrow> (case decodeAll vs of Inl e \<Rightarrow> Inl e | Inr tws \<Rightarrow> Inr (tw # tws)))"

text \<open>\<^verbatim>\<open>json.Unmarshal(data, &tweets)\<close> for \<^verbatim>\<open>var tweets []scheduledTweet\<close>.\<close>

definition Unmarshal :: "json \<Rightarrow> ioError + scheduledTweet slice" where
  "Unmarshal v =
    (case v of
       JNull \<Rightarrow> Inr None
     | JArray vs \<Rightarrow> map_sum id Some (decodeAll vs)
     | _ \<Rightarrow> Inl UnmarshalTypeError)"

text \<open>\<^verbatim>\<open>json.MarshalIndent(tweets, "", "  ")\<close>; an empty \<open>image\<close> is left out.\<close>

definition encodeTweet :: "scheduledTweet \<Rightarrow> ioError + json" where
  "encodeTweet tw =
    (case appendStrictRFC3339 (ScheduleTime tw) of
       None \<Rightarrow> Inl MarshalError
     | Some s \<Rightarrow>
         Inr (JObject ([(''text'', JString (Text tw))]
                       @ (if Image tw = '''' then [] else [(''image'', JString (Image tw))])
                       @ [(''schedule_time'', JString s), (''id'', JString (ID tw))])))"

fun encodeAll :: "scheduledTweet list \<Rightarrow> ioError + json list" where
  "encodeAll [] = Inr []"
| "encodeAll (tw # tws) =
    (case encodeTweet tw of
       Inl e \<Rightarrow> Inl e
     | Inr v \<Rightarrow> (case encodeAll tws of Inl e \<Rightarrow> Inl e | Inr vs \<Rightarrow> Inr (v # vs)))"

definition MarshalIndent :: "scheduledTweet slice \<Rightarrow> ioError + json" where
  "MarshalIndent tweets =
    (case tweets of None \<Rightarrow> Inr JNull | Some tws \<Rightarrow> map_sum id JArray (encodeAll tws))"

text \<open>
  The file \<^verbatim>\<open>scheduled_tweets.json\<close>: absent, or bytes that are not JSON, or a JSON
  value. Whether the process may read and write it is part of the state; a write that
  is refused leaves the file as it was.
\<close>

datatype document = Malformed | Document json

record fileSystem =
  doc :: "document option"
  readable :: bool
  writable :: bool

definition ReadFile :: "fileSystem \<Rightarrow> ioError + document" where
  "ReadFile fs =
    (if \<not> readable fs then Inl PermissionDenied
     else (case doc fs of None \<Rightarrow> Inl NotExist | Some d \<Rightarrow> Inr d))"

definition WriteFile :: "json \<Rightarrow> fileSystem \<Rightarrow> ioError option \<times> fileSystem" where
  "WriteFile d fs =
    (if writable fs then (None, fs\<lparr>doc := Some (Document d)\<rparr>) else (Some PermissionDenied, fs))"

definition loadScheduledTweets :: "fileSystem \<Rightarrow> ioError + scheduledTweet slice" where
  "loadScheduledTweets fs =
    (case ReadFile fs of
       Inl e \<Rightarrow> if e = NotExist then Inr (Some []) else Inl e
     | Inr Malformed \<Rightarrow> Inl SyntaxError
     | Inr (Document v) \<Rightarrow> Unmarshal v)"

definition saveScheduledTweets :: "scheduledTweet slice \<Rightarrow> fileSystem \<Rightarrow> ioError option \<times> fileSystem" where
  "saveScheduledTweets tweets fs =
    (case MarshalIndent tweets of
       Inl e \<Rightarrow> (Some e, fs)
     | Inr d \<Rightarrow> WriteFile d fs)"

definition saveScheduledTweet :: "scheduledTweet \<Rightarrow> fileSystem \<Rightarrow> ioError option \<times> fileSystem" where
  "saveScheduledTweet tweet fs =
    (let tweets = (case loadScheduledTweets fs of Inl e \<Rightarrow> Some [] | Inr tws \<Rightarrow> tws)
     in saveScheduledTweets (appendSlice tweets tweet) fs)"

datatype schedError =
  InvalidScheduleTime
  | ScheduleTimeNotInFuture
  | SavingScheduledTweet ioError
  | LoadingScheduledTweets ioError
  | TweetNotFound string
  | SavingUpdatedTweets ioError

text \<open>
  The loop of \<^verbatim>\<open>cancelScheduledTweet\<close>: the entries with another identifier are appended
  to a slice that starts as \<^verbatim>\<open>nil\<close>, and \<open>found\<close> is set at an entry with the identifier.
\<close>

fun cancelLoop :: "string \<Rightarrow> scheduledTweet list \<Rightarrow> scheduledTweet slice \<times> bool
    \<Rightarrow> scheduledTweet slice \<times> bool" where
  "cancelLoop tweetID [] acc = acc"
| "cancelLoop tweetID (tweet # tweets) (updatedTweets, found) =
    (if ID tweet \<noteq> tweetID then cancelLoop tweetID tweets (appendSlice updatedTweets tweet, found)
     else cancelLoop tweetID tweets (updatedTweets, True))"

definition cancelScheduledTweet :: "string \<Rightarrow> fileSystem \<Rightarrow> schedError option \<times> fileSystem" where
  "cancelScheduledTweet tweetID fs =
    (case loadScheduledTweets fs of
       Inl e \<Rightarrow> (Some (LoadingScheduledTweets e), fs)
     | Inr tweets \<Rightarrow>
         (let (updatedTweets, found) = cancelLoop tweetID (elems tweets) (None, False)
          in if \<not> found then (Some (TweetNotFound tweetID), fs)
             else (case saveScheduledTweets updatedTweets fs of
                     (Some e, fs') \<Rightarrow> (Some (SavingUpdatedTweets e), fs')
                   | (None, fs') \<Rightarrow> (None, fs'))))"

section \<open>Scheduling a tweet\<close>

text \<open>
  \<^verbatim>\<open>parseScheduleTime\<close> tries the four layouts in turn. A time without a date is a time
  of today, a date without a year is a date of this year, both in the zone of the
  process; a full date is read in UTC. \<open>now\<close> is the reading of the clock.
\<close>

definition parseScheduleTime :: "string \<Rightarrow> Time \<Rightarrow> Time option" where
  "parseScheduleTime scheduleAt now =
    (case timeParse layoutDateTimeSec scheduleAt of
       Some t \<Rightarrow> Some t
     | None \<Rightarrow>
    (case timeParse layoutDateTime scheduleAt of
       Some t \<Rightarrow> Some t
     | None \<Rightarrow>
    (case timeParse layoutMonthDay scheduleAt of
       Some t \<Rightarrow> Some (Date (Year now) (int (Month t)) (int (Day t)) (int (Hour t))
                         (int (Minute t)) 0 0 (Offset now))
     | None \<Rightarrow>
    (case timeParse layoutClock scheduleAt of
       Some t \<Rightarrow> Some (Date (Year now) (int (Month now)) (int (Day now)) (int (Hour t))
                         (int (Minute t)) 0 0 (Offset now))
     | None \<Rightarrow> None))))"

definition generateTweetID :: "Time \<Rightarrow> string" where
  "generateTweetID now = ''tweet_'' @ showInt (UnixNano now)"

text \<open>
  \<^verbatim>\<open>handleScheduledTweet\<close> reads the clock three times: in \<^verbatim>\<open>parseScheduleTime\<close>, for the
  comparison with the schedule time, and for the identifier.
\<close>

definition handleScheduledTweet ::
  "string \<Rightarrow> string \<Rightarrow> string \<Rightarrow> Time \<Rightarrow> Time \<Rightarrow> Time \<Rightarrow> fileSystem
    \<Rightarrow> schedError option \<times> fileSystem" where
  "handleScheduledTweet txt img scheduleAt nowParse nowCheck nowID fs =
    (case parseScheduleTime scheduleAt nowParse of
       None \<Rightarrow> (Some InvalidScheduleTime, fs)
     | Some scheduleTime \<Rightarrow>
         if Before scheduleTime nowCheck then (Some ScheduleTimeNotInFuture, fs)
         else (let tweet = \<lparr>Text = txt, Image = img, ScheduleTime = scheduleTime,
                             ID = generateTweetID nowID\<rparr>
               in case saveScheduledTweet tweet fs of
                    (Some e, fs') \<Rightarrow> (Some (SavingScheduledTweet e), fs')
                  | (None, fs') \<Rightarrow> (None, fs')))"

section \<open>The scheduler daemon\<close>

text \<open>
  What the network does when the daemon delivers one tweet: the result of
  \<^verbatim>\<open>uploadMedia\<close>, should the tweet have an image, and the transport, the random bytes
  and the clock that \<^verbatim>\<open>postTweet\<close> meets.
\<close>

record delivery =
  uploadResult :: "error + string"
  postClient :: transport
  postRandom :: "string option"
  postUnixNow :: int

text \<open>The delivery of a due tweet: the upload of its image, if any, then the post.\<close>

definition deliver :: "Config \<Rightarrow> delivery \<Rightarrow> scheduledTweet \<Rightarrow> error + unit" where
  "deliver cfg d tweet =
    (case (if Image tweet \<noteq> '''' then map_sum id (\<lambda>i. [i]) (uploadResult d) else Inr []) of
       Inl e \<Rightarrow> Inl e
     | Inr mediaIDs \<Rightarrow>
         postTweet (postClient d) cfg (Text tweet) mediaIDs (postRandom d) (postUnixNow d))"

definition due :: "Time \<Rightarrow> scheduledTweet \<Rightarrow> bool" where
  "due now tweet \<longleftrightarrow> Before (ScheduleTime tweet) now \<or> Equal (ScheduleTime tweet) now"

text \<open>
  The loop over the tweets of one tick; \<open>net i\<close> is what the network does for the tweet
  at position \<open>i\<close>. A tweet that is not due, or whose delivery fails, is appended to the
  remaining tweets, which start as \<^verbatim>\<open>nil\<close>.
\<close>

fun tickLoop :: "Config \<Rightarrow> Time \<Rightarrow> (nat \<Rightarrow> delivery) \<Rightarrow> nat \<Rightarrow> scheduledTweet list
    \<Rightarrow> scheduledTweet slice \<Rightarrow> scheduledTweet slice" where
  "tickLoop cfg now net i [] remainingTweets = remainingTweets"
| "tickLoop cfg now net i (tweet # tweets) remainingTweets =
    (if due now tweet
     then (case deliver cfg (net i) tweet of
             Inl e \<Rightarrow> tickLoop cfg now net (i + 1) tweets (appendSlice remainingTweets tweet)
           | Inr u \<Rightarrow> tickLoop cfg now net (i + 1) tweets remainingTweets)
     else tickLoop cfg now net (i + 1) tweets (appendSlice remainingTweets tweet))"

text \<open>
  One turn of the loop of \<^verbatim>\<open>runSchedulerDaemon\<close>. An error of the load or of the save is
  logged and the daemon goes to sleep; it is returned here with the files.
\<close>

definition tick :: "Config \<Rightarrow> Time \<Rightarrow> (nat \<Rightarrow> delivery) \<Rightarrow> fileSystem
    \<Rightarrow> ioError option \<times> fileSystem" where
  "tick cfg now net fs =
    (case loadScheduledTweets fs of
       Inl e \<Rightarrow> (Some e, fs)
     | Inr tweets \<Rightarrow>
         (let remainingTweets = tickLoop cfg now net 0 (elems tweets) None
          in if len remainingTweets \<noteq> len tweets then saveScheduledTweets remainingTweets fs
             else (None, fs)))"

text \<open>
  The daemon runs for ever; here it runs for as many turns as there are readings of the
  clock and of the network.
\<close>

fun runSchedulerDaemon :: "Config \<Rightarrow> (Time \<times> (nat \<Rightarrow> delivery)) list \<Rightarrow> fileSystem \<Rightarrow> fileSystem" where
  "runSchedulerDaemon cfg [] fs = fs"
| "runSchedulerDaemon cfg ((now, net) # turns) fs =
    runSchedulerDaemon cfg turns (snd (tick cfg now net fs))"

section \<open>Properties of percent-encoding\<close>

lemma upperhex_nth_not_plus: "n < 16 \<Longrightarrow> upperhex ! n \<noteq> CHR ''+''"
  by (auto simp: upperhex_def less_Suc_eq eval_nat_numeral nth_Cons')

lemma unreserved_shouldEscape:
  "shouldEscape c encodeQueryComponent \<longleftrightarrow> \<not> unreserved c"
  by (auto simp: shouldEscape_def unreserved_def)

lemma space_not_unreserved: "\<not> unreserved (CHR '' '')"
  by (simp add: unreserved_def isAlnum_def isLower_def isUpper_def isDigit_def)

lemma plus_not_unreserved: "\<not> unreserved (CHR ''+'')"
  by (simp add: unreserved_def isAlnum_def isLower_def isUpper_def isDigit_def)

lemma pctXX_space: "pctXX (CHR '' '') = ''%20''"
  by (simp add: pctXX_def upperhex_def)

lemma percentEncode_byte:
  "ReplaceAll (escapeByte encodeQueryComponent c) (CHR ''+'') ''%20''
     = (if unreserved c then [c] else pctXX c)"
proof (cases "c = CHR '' ''")
  case True
  then show ?thesis
    by (simp add: ReplaceAll_def escapeByte_def space_not_unreserved pctXX_space)
next
  case False
  have hi: "upperhex ! (of_char c div 16) \<noteq> CHR ''+''"
    by (rule upperhex_nth_not_plus) (simp add: less_mult_imp_div_less)
  have lo: "upperhex ! (of_char c mod 16) \<noteq> CHR ''+''"
    by (rule upperhex_nth_not_plus) simp
  show ?thesis
  proof (cases "unreserved c")
    case True
    with plus_not_unreserved have "c \<noteq> CHR ''+''" by auto
    with True False show ?thesis
      by (simp add: ReplaceAll_def escapeByte_def unreserved_shouldEscape)
  next
    case nu: False
    with False hi lo show ?thesis
      by (simp add: ReplaceAll_def escapeByte_def unreserved_shouldEscape pctXX_def)
  qed
qed

lemma ReplaceAll_concat:
  "ReplaceAll (concat xss) old new = concat (map (\<lambda>xs. ReplaceAll xs old new) xss)"
  by (induction xss) (simp_all add: ReplaceAll_def)

lemma percentEncode_specEncode: "percentEncode s = specEncode s"
  by (simp add: percentEncode_def QueryEscape_def escape_def specEncode_def
      ReplaceAll_concat comp_def percentEncode_byte)

lemma pctXX_no_plus: "CHR ''+'' \<notin> set (pctXX c)"
proof -
  have hi: "upperhex ! (of_char c div 16) \<noteq> CHR ''+''"
    by (rule upperhex_nth_not_plus) (simp add: less_mult_imp_div_less)
  have lo: "upperhex ! (of_char c mod 16) \<noteq> CHR ''+''"
    by (rule upperhex_nth_not_plus) simp
  from hi lo show ?thesis by (auto simp: pctXX_def)
qed

lemma specEncode_no_plus: "CHR ''+'' \<notin> set (specEncode s)"
  using plus_not_unreserved pctXX_no_plus by (auto simp: specEncode_def)


section \<open>Properties of the parameter string\<close>

lemma flatten_Nil: "flatten [] = []" by (simp add: flatten_def)

lemma flatten_Cons: "flatten ((k, vs) # m) = map (Pair k) vs @ flatten m"
  by (simp add: flatten_def)

lemma mset_flatten_Add: "mset (flatten (Add m k v)) = add_mset (k, v) (mset (flatten m))"
  by (induction m k v rule: Add.induct) (simp_all add: flatten_Nil flatten_Cons)

lemma keys_Add: "set (map fst (Add m k v)) = insert k (set (map fst m))"
  by (induction m k v rule: Add.induct) auto

lemma distinct_Add: "distinct (map fst m) \<Longrightarrow> distinct (map fst (Add m k v))"
proof (induction m k v rule: Add.induct)
  case (1 k v)
  then show ?case by simp
next
  case (2 k' vs m k v)
  then show ?case using keys_Add [of m k v] by auto
qed

lemma addParams_props:
  "mset (flatten (addParams m ps)) = mset (flatten m) + mset ps
   \<and> (distinct (map fst m) \<longrightarrow> distinct (map fst (addParams m ps)))"
proof (induction ps arbitrary: m)
  case Nil
  then show ?case by (simp add: addParams_def)
next
  case (Cons p ps)
  have "addParams m (p # ps) = addParams (Add m (fst p) (snd p)) ps"
    by (simp add: addParams_def)
  with Cons [of "Add m (fst p) (snd p)"] show ?case
    by (simp add: mset_flatten_Add distinct_Add)
qed

lemma addValues_props:
  "mset (flatten (foldl (\<lambda>m v. Add m k v) m vs)) = mset (flatten m) + mset (map (Pair k) vs)
   \<and> (distinct (map fst m) \<longrightarrow> distinct (map fst (foldl (\<lambda>m v. Add m k v) m vs)))"
proof (induction vs arbitrary: m)
  case Nil
  then show ?case by simp
next
  case (Cons v vs)
  from Cons [of "Add m k v"] show ?case
    by (simp add: mset_flatten_Add distinct_Add)
qed

lemma addQuery_props:
  "mset (flatten (addQuery m q)) = mset (flatten m) + mset (flatten q)
   \<and> (distinct (map fst m) \<longrightarrow> distinct (map fst (addQuery m q)))"
proof (induction q arbitrary: m)
  case Nil
  then show ?case by (simp add: addQuery_def flatten_Nil)
next
  case (Cons kvs q)
  obtain k vs where kvs: "kvs = (k, vs)" by (cases kvs)
  have "addQuery m (kvs # q) = addQuery (foldl (\<lambda>m v. Add m k v) m vs) q"
    by (simp add: addQuery_def kvs)
  with Cons [of "foldl (\<lambda>m v. Add m k v) m vs"] addValues_props [of k m vs] show ?case
    by (simp add: kvs flatten_Cons)
qed

lemma signingValuesOf_props:
  "mset (flatten (signingValuesOf ps os q)) = mset (ps @ os @ flatten q)
   \<and> distinct (map fst (signingValuesOf ps os q))"
  using addParams_props [of "[]" ps] addParams_props [of "addParams [] ps" os]
    addQuery_props [of "addParams (addParams [] ps) os" q]
  by (simp add: signingValuesOf_def flatten_Nil)

lemma sorted_Pair:
  fixes xs :: "string list"
  shows "sorted xs \<Longrightarrow> sorted (map (Pair (k::string)) xs)"
  by (induction xs) (auto simp: less_eq_prod_def)

lemma sorted_blocks:
  fixes f :: "string \<Rightarrow> string list"
  assumes "sorted ks" and "distinct ks" and "\<And>k. sorted (f k)"
  shows "sorted (concat (map (\<lambda>k. map (Pair k) (f k)) ks))"
  using assms(1,2)
proof (induction ks)
  case Nil
  then show ?case by simp
next
  case (Cons k ks)
  have blk: "sorted (map (Pair k) (f k))"
    using assms(3) [of k] by (rule sorted_Pair)
  have rest: "sorted (concat (map (\<lambda>k. map (Pair k) (f k)) ks))"
    using Cons by simp
  have le: "x \<le> y" if "x \<in> set (map (Pair k) (f k))"
    and "y \<in> set (concat (map (\<lambda>k. map (Pair k) (f k)) ks))" for x y
  proof -
    from that(1) have fx: "fst x = k" by auto
    from that(2) obtain k' where k': "k' \<in> set ks" "fst y = k'" by auto
    from Cons.prems k' have "k \<le> k'" and "k \<noteq> k'" by auto
    then have "k < k'" by simp
    with fx k' show ?thesis by (simp add: less_eq_prod_def)
  qed
  from blk rest le show ?case by (simp add: sorted_append)
qed

lemma sorted_sortedPairs: "distinct (map fst m) \<Longrightarrow> sorted (sortedPairs m)"
  unfolding sortedPairs_def
  by (rule sorted_blocks) simp_all

lemma valuesOf_distinct:
  "distinct (map fst m) \<Longrightarrow> (k, vs) \<in> set m \<Longrightarrow> valuesOf m k = vs"
  by (simp add: valuesOf_def)


lemma sum_list_map_sort:
  fixes g :: "string \<Rightarrow> 'b multiset"
  shows "sum_list (map g (sort ks)) = sum_list (map g ks)"
proof -
  have "sum_mset (mset (map g (sort ks))) = sum_mset (mset (map g ks))" by simp
  then show ?thesis by (simp only: sum_mset_sum_list)
qed

lemma mset_sortedPairs:
  assumes "distinct (map fst m)"
  shows "mset (sortedPairs m) = mset (flatten m)"
proof -
  let ?g = "\<lambda>k. mset (map (Pair k) (valuesOf m k))"
  have eq: "map ?g (map fst m) = map (\<lambda>kvs. mset (map (Pair (fst kvs)) (snd kvs))) m"
    using valuesOf_distinct [OF assms] by (auto simp: comp_def)
  have "mset (sortedPairs m) = sum_list (map ?g (sort (map fst m)))"
    by (simp add: sortedPairs_def mset_concat comp_def)
  also have "\<dots> = sum_list (map ?g (map fst m))"
    by (rule sum_list_map_sort)
  also have "\<dots> = sum_list (map (\<lambda>kvs. mset (map (Pair (fst kvs)) (snd kvs))) m)"
    by (simp only: eq)
  also have "\<dots> = mset (flatten m)"
    by (simp add: flatten_def mset_concat comp_def)
  finally show ?thesis .
qed

lemma sortedPairs_eq_sort:
  assumes "distinct (map fst m)"
  shows "sortedPairs m = sort (flatten m)"
proof -
  have "sort (flatten m) = sortedPairs m"
    by (rule properties_for_sort) (simp_all add: mset_sortedPairs [OF assms] sorted_sortedPairs [OF assms])
  then show ?thesis by simp
qed

lemma sort_cong_mset:
  fixes xs ys :: "(string \<times> string) list"
  shows "mset xs = mset ys \<Longrightarrow> sort xs = sort ys"
  by (rule properties_for_sort) simp_all

lemma encodeValues_sortedPairs:
  "encodeValues m =
     Join (map (\<lambda>kv. percentEncode (fst kv) @ ''='' @ percentEncode (snd kv)) (sortedPairs m)) ''&''"
proof (cases "m = []")
  case True
  then show ?thesis by (simp add: encodeValues_def sortedPairs_def)
next
  case False
  then show ?thesis
    by (simp add: encodeValues_def sortedPairs_def map_concat comp_def)
qed

lemma parameterString_raw_sorted:
  "encodeValues (signingValuesOf ps os q) = rawSortedParameterString ps os q"
proof -
  have d: "distinct (map fst (signingValuesOf ps os q))"
    using signingValuesOf_props by blast
  have "sort (flatten (signingValuesOf ps os q)) = sort (ps @ os @ flatten q)"
    by (rule sort_cong_mset) (use signingValuesOf_props [of ps os q] in blast)
  then show ?thesis
    by (simp add: encodeValues_sortedPairs sortedPairs_eq_sort [OF d] rawSortedParameterString_def)
qed


lemma buildOAuth1HeaderVars_Inr:
  assumes "buildOAuth1HeaderVars method rawURL params cfg rnd unixNow = Inr v"
  shows "\<exists>buf. rnd = Some buf \<and> nonce v = hexEncode buf"
    and "timestamp v = showInt unixNow"
    and "normalizeURL rawURL = Inr (baseURL v, queryParams v)"
    and "parameterString v =
           encodeValues (signingValuesOf params (oauthParamsOf cfg (nonce v) (timestamp v)) (queryParams v))"
    and "baseString v = ToUpper method @ ''&'' @ percentEncode (baseURL v) @ ''&''
                          @ percentEncode (parameterString v)"
    and "signingKey v = percentEncode (APISecret cfg) @ ''&'' @ percentEncode (AccessSecret cfg)"
    and "signature v = base64Encode (hmacSHA1 (signingKey v) (baseString v))"
    and "header v = headerOf (setKey (oauthParamsOf cfg (nonce v) (timestamp v))
                                ''oauth_signature'' (signature v))"
  using assms
  by (auto simp: buildOAuth1HeaderVars_def generateNonce_def Let_def
      split: option.splits sum.splits prod.splits)

lemma buildOAuth1HeaderVars_fails:
  "isl (buildOAuth1HeaderVars method rawURL params cfg rnd unixNow)
     \<longleftrightarrow> rnd = None \<or> isl (Parse rawURL)"
  by (auto simp: buildOAuth1HeaderVars_def generateNonce_def normalizeURL_def Let_def
      split: option.splits sum.splits prod.splits)

lemma buildOAuth1Header_fails:
  "isl (buildOAuth1Header method rawURL params cfg rnd unixNow)
     \<longleftrightarrow> rnd = None \<or> isl (Parse rawURL)"
  using buildOAuth1HeaderVars_fails [of "method" rawURL params cfg rnd unixNow]
  by (auto simp: buildOAuth1Header_def split: sum.splits)

lemma Parse_tweetEndpoint:
  "Parse tweetEndpoint = Inr \<lparr>Scheme = ''https'', Opaque = [], Host = ''api.twitter.com'',
     Path = ''/2/tweets'', RawPath = [], RawQuery = []\<rparr>"
  by code_simp

lemma Parse_mediaUploadEndpoint:
  "Parse mediaUploadEndpoint = Inr \<lparr>Scheme = ''https'', Opaque = [], Host = ''upload.twitter.com'',
     Path = ''/1.1/media/upload.json'', RawPath = [], RawQuery = []\<rparr>"
  by code_simp

lemma normalizeURL_tweetEndpoint:
  "normalizeURL tweetEndpoint = Inr (''https://api.twitter.com/2/tweets'', [])"
  by code_simp

lemma Parse_colon: "Parse '':'' = Inl MissingProtocolScheme"
  by code_simp

lemma demo_vars_ex:
  "\<exists>v. buildOAuth1HeaderVars m tweetEndpoint ps demoConfig (Some demoRandom) 0 = Inr v"
  using buildOAuth1HeaderVars_fails [of m tweetEndpoint ps demoConfig "Some demoRandom" 0]
  by (cases "buildOAuth1HeaderVars m tweetEndpoint ps demoConfig (Some demoRandom) 0")
     (simp_all add: Parse_tweetEndpoint)

text \<open>
  Claim C1, as amended. For every request the engine signs, the parameter string is
  built from the union of the body parameters, the six OAuth protocol parameters and
  the query parameters of the URL, as one flat list of pairs; the pairs are sorted by
  key and then by value as they stand (bytewise, before any encoding); every key and
  value is then percent-encoded and the pairs are joined as \<open>key=value\<close> by \<open>&\<close>.
\<close>

theorem C1_parameter_string_raw_sorted:
  assumes "buildOAuth1HeaderVars method rawURL params cfg rnd unixNow = Inr v"
  shows "normalizeURL rawURL = Inr (baseURL v, queryParams v)
     \<and> length (oauthParamsOf cfg (nonce v) (timestamp v)) = 6
     \<and> parameterString v =
         Join (map (\<lambda>kv. percentEncode (fst kv) @ ''='' @ percentEncode (snd kv))
                   (sort (params @ oauthParamsOf cfg (nonce v) (timestamp v)
                            @ flatten (queryParams v)))) ''&''"
  using buildOAuth1HeaderVars_Inr(3,4) [OF assms]
  by (simp add: parameterString_raw_sorted rawSortedParameterString_def oauthParamsOf_def)

text \<open>
  Claim C1, witness: a request with the body parameter \<open>|\<close>. The key \<open>|\<close> is greater than
  every \<open>oauth_\<close> key, so its pair comes last, although its encoding \<open>%7C\<close> is smaller.
\<close>

theorem C1_parameter_string_raw_sorted_witness:
  "(case buildOAuth1HeaderVars ''POST'' tweetEndpoint [(''|'', ''1'')] demoConfig (Some demoRandom) 0 of
      Inl e \<Rightarrow> False
    | Inr v \<Rightarrow> parameterString v =
        ''oauth_consumer_key=K&oauth_nonce=00000000000000000000000000000000&oauth_signature_method=HMAC-SHA1&oauth_timestamp=0&oauth_token=T&oauth_version=1.0&%7C=1'')"
proof -
  obtain v where v: "buildOAuth1HeaderVars ''POST'' tweetEndpoint [(''|'', ''1'')] demoConfig
      (Some demoRandom) 0 = Inr v"
    using demo_vars_ex by blast
  have n: "nonce v = hexEncode demoRandom" and t: "timestamp v = showInt 0"
    using buildOAuth1HeaderVars_Inr(1,2) [OF v] by auto
  have q: "queryParams v = []"
    using buildOAuth1HeaderVars_Inr(3) [OF v] by (simp add: normalizeURL_tweetEndpoint)
  have e: "Join (map (\<lambda>kv. percentEncode (fst kv) @ ''='' @ percentEncode (snd kv))
                   (sort ([(''|'', ''1'')] @ oauthParamsOf demoConfig (hexEncode demoRandom) (showInt 0)
                            @ flatten []))) ''&''
       = ''oauth_consumer_key=K&oauth_nonce=00000000000000000000000000000000&oauth_signature_method=HMAC-SHA1&oauth_timestamp=0&oauth_token=T&oauth_version=1.0&%7C=1''"
    by code_simp
  from C1_parameter_string_raw_sorted [OF v] have
    "parameterString v = Join (map (\<lambda>kv. percentEncode (fst kv) @ ''='' @ percentEncode (snd kv))
                   (sort ([(''|'', ''1'')] @ oauthParamsOf demoConfig (hexEncode demoRandom) (showInt 0)
                            @ flatten []))) ''&''"
    by (simp only: n t q)
  with e v show ?thesis by simp
qed

text \<open>
  Claim C1, counterexample: for the same request the parameter string of the code is not
  the one the claim describes, whose pairs are sorted by their encoded keys.
\<close>

theorem C1_counterexample:
  "(case buildOAuth1HeaderVars ''POST'' tweetEndpoint [(''|'', ''1'')] demoConfig (Some demoRandom) 0 of
      Inl e \<Rightarrow> False
    | Inr v \<Rightarrow> parameterString v \<noteq>
        specParameterString [(''|'', ''1'')] (oauthParamsOf demoConfig (nonce v) (timestamp v))
          (queryParams v))"
proof -
  obtain v where v: "buildOAuth1HeaderVars ''POST'' tweetEndpoint [(''|'', ''1'')] demoConfig
      (Some demoRandom) 0 = Inr v"
    using demo_vars_ex by blast
  have n: "nonce v = hexEncode demoRandom" and t: "timestamp v = showInt 0"
    using buildOAuth1HeaderVars_Inr(1,2) [OF v] by auto
  have q: "queryParams v = []"
    using buildOAuth1HeaderVars_Inr(3) [OF v] by (simp add: normalizeURL_tweetEndpoint)
  have p: "parameterString v = rawSortedParameterString [(''|'', ''1'')]
      (oauthParamsOf demoConfig (hexEncode demoRandom) (showInt 0)) []"
    using buildOAuth1HeaderVars_Inr(4) [OF v] by (simp add: n t q parameterString_raw_sorted)
  have ne: "rawSortedParameterString [(''|'', ''1'')]
      (oauthParamsOf demoConfig (hexEncode demoRandom) (showInt 0)) []
    \<noteq> specParameterString [(''|'', ''1'')]
      (oauthParamsOf demoConfig (hexEncode demoRandom) (showInt 0)) []"
    by code_simp
  from v p ne show ?thesis by (simp add: n t q)
qed

section \<open>Properties of the signature\<close>



text \<open>
  Claim C4, as amended. The sign operation fails if and only if the generation of the
  nonce fails or the URL does not parse. The two endpoints the program signs for do
  parse, so for them it fails if and only if the generation of the nonce fails; and
  when that fails the error is the one of the nonce, whatever the other arguments.
\<close>

theorem C4_sign_fails_iff:
  "(isl (buildOAuth1Header method rawURL params cfg rnd unixNow)
      \<longleftrightarrow> rnd = None \<or> isl (Parse rawURL))
   \<and> (isl (buildOAuth1Header method tweetEndpoint params cfg rnd unixNow) \<longleftrightarrow> rnd = None)
   \<and> (isl (buildOAuth1Header method mediaUploadEndpoint params cfg rnd unixNow) \<longleftrightarrow> rnd = None)
   \<and> (rnd = None \<longrightarrow> buildOAuth1Header method rawURL params cfg rnd unixNow = Inl GeneratingNonce)"
proof -
  have a: "isl (buildOAuth1Header method rawURL params cfg rnd unixNow)
      \<longleftrightarrow> rnd = None \<or> isl (Parse rawURL)"
    by (rule buildOAuth1Header_fails)
  have b: "isl (buildOAuth1Header method tweetEndpoint params cfg rnd unixNow) \<longleftrightarrow> rnd = None"
    by (simp add: buildOAuth1Header_fails Parse_tweetEndpoint)
  have c: "isl (buildOAuth1Header method mediaUploadEndpoint params cfg rnd unixNow) \<longleftrightarrow> rnd = None"
    by (simp add: buildOAuth1Header_fails Parse_mediaUploadEndpoint)
  have d: "rnd = None \<longrightarrow> buildOAuth1Header method rawURL params cfg rnd unixNow = Inl GeneratingNonce"
    by (simp add: buildOAuth1Header_def buildOAuth1HeaderVars_def generateNonce_def)
  from a b c d show ?thesis by blast
qed

text \<open>Claim C4, witness: the three cases at concrete arguments.\<close>

theorem C4_sign_fails_iff_witness:
  "buildOAuth1Header ''POST'' tweetEndpoint [] demoConfig None 0 = Inl GeneratingNonce
   \<and> \<not> isl (buildOAuth1Header ''POST'' tweetEndpoint [] demoConfig (Some demoRandom) 0)
   \<and> isl (buildOAuth1Header ''POST'' '':'' [] demoConfig (Some demoRandom) 0)"
  using C4_sign_fails_iff [of "''POST''" tweetEndpoint "[]" demoConfig None 0]
    C4_sign_fails_iff [of "''POST''" tweetEndpoint "[]" demoConfig "Some demoRandom" 0]
    C4_sign_fails_iff [of "''POST''" "'':''" "[]" demoConfig "Some demoRandom" 0]
  by (simp add: Parse_colon)

text \<open>
  Claim C4, counterexample: the random source works and the nonce is generated, and
  the sign operation fails all the same, on the URL \<open>:\<close>, which has no scheme.
\<close>

theorem C4_counterexample:
  "generateNonce (Some demoRandom) = Inr ''00000000000000000000000000000000''
   \<and> buildOAuth1Header ''POST'' '':'' [] demoConfig (Some demoRandom) 0
       = Inl (ParsingURL MissingProtocolScheme)"
proof -
  have a: "generateNonce (Some demoRandom) = Inr ''00000000000000000000000000000000''"
    by code_simp
  have b: "buildOAuth1Header ''POST'' '':'' [] demoConfig (Some demoRandom) 0
       = Inl (ParsingURL MissingProtocolScheme)"
    by (simp add: buildOAuth1Header_def buildOAuth1HeaderVars_def a normalizeURL_def Parse_colon)
  from a b show ?thesis by blast
qed

section \<open>Properties of the tweet-create request\<close>

lemma postTweetRequest_header:
  "map_sum id (\<lambda>r. getKey (Headers r) ''Authorization'') (postTweetRequest cfg txt mediaIDs rnd unixNow)
     = buildOAuth1Header ''POST'' tweetEndpoint [] cfg rnd unixNow"
  by (simp add: postTweetRequest_def Parse_tweetEndpoint getKey_def split: sum.splits)

text \<open>
  Claim C10. The tweet-create operation computes its Authorization header over no body
  parameter: with the same nonce, timestamp and credentials, two calls that differ in
  the text or the media identifiers carry the same header, the one of the method and
  the endpoint alone, while the JSON body of each is its own payload.
\<close>

theorem C10_header_independent_of_body:
  "map_sum id (\<lambda>r. getKey (Headers r) ''Authorization'') (postTweetRequest cfg txt mediaIDs rnd unixNow)
     = map_sum id (\<lambda>r. getKey (Headers r) ''Authorization'') (postTweetRequest cfg txt' mediaIDs' rnd unixNow)
   \<and> map_sum id (\<lambda>r. getKey (Headers r) ''Authorization'') (postTweetRequest cfg txt mediaIDs rnd unixNow)
     = buildOAuth1Header ''POST'' tweetEndpoint [] cfg rnd unixNow
   \<and> map_sum id Body (postTweetRequest cfg txt mediaIDs rnd unixNow)
     = map_sum id (\<lambda>h. JSONBody (tweetPayload txt mediaIDs))
         (buildOAuth1Header ''POST'' tweetEndpoint [] cfg rnd unixNow)"
proof -
  have b: "map_sum id Body (postTweetRequest cfg txt mediaIDs rnd unixNow)
     = map_sum id (\<lambda>h. JSONBody (tweetPayload txt mediaIDs))
         (buildOAuth1Header ''POST'' tweetEndpoint [] cfg rnd unixNow)"
    by (simp add: postTweetRequest_def Parse_tweetEndpoint split: sum.splits)
  with postTweetRequest_header [of cfg "txt" mediaIDs rnd unixNow]
    postTweetRequest_header [of cfg "txt'" "mediaIDs'" rnd unixNow]
  show ?thesis by simp
qed

text \<open>Claim C10, witness: two different payloads, one header.\<close>

theorem C10_header_independent_of_body_witness:
  "map_sum id (\<lambda>r. getKey (Headers r) ''Authorization'')
      (postTweetRequest demoConfig ''hello'' [] (Some demoRandom) 0)
     = map_sum id (\<lambda>r. getKey (Headers r) ''Authorization'')
      (postTweetRequest demoConfig ''send money'' [''1'', ''2''] (Some demoRandom) 0)
   \<and> tweetPayload ''hello'' [] \<noteq> tweetPayload ''send money'' [''1'', ''2'']
   \<and> \<not> isl (postTweetRequest demoConfig ''hello'' [] (Some demoRandom) 0)"
proof -
  have a: "tweetPayload ''hello'' [] \<noteq> tweetPayload ''send money'' [''1'', ''2'']"
    by (simp add: tweetPayload_def)
  have "\<not> isl (buildOAuth1Header ''POST'' tweetEndpoint [] demoConfig (Some demoRandom) 0)"
    by (simp add: buildOAuth1Header_fails Parse_tweetEndpoint)
  then have c: "\<not> isl (postTweetRequest demoConfig ''hello'' [] (Some demoRandom) 0)"
    by (cases "buildOAuth1Header ''POST'' tweetEndpoint [] demoConfig (Some demoRandom) 0")
       (simp_all add: postTweetRequest_def Parse_tweetEndpoint)
  from C10_header_independent_of_body [of demoConfig "''hello''" "[]" "Some demoRandom" 0
      "''send money''" "[''1'', ''2'']"] a c
  show ?thesis by simp
qed

text \<open>
  Claim C2. For every input string, \<^verbatim>\<open>percentEncode\<close> leaves the ASCII letters and digits
  and the marks \<open>- _ . ~\<close> as they are and writes every other byte as \<open>%XX\<close>; a space
  becomes \<open>%20\<close> and the result never holds a \<open>+\<close>; \<^verbatim>\<open>"Hello World!"\<close> becomes
  \<^verbatim>\<open>"Hello%20World%21"\<close>.
\<close>

theorem C2_percentEncode:
  "percentEncode s = concat (map (\<lambda>c. if unreserved c then [c] else pctXX c) s)
   \<and> CHR ''+'' \<notin> set (percentEncode s)
   \<and> percentEncode '' '' = ''%20''
   \<and> percentEncode ''-_.~'' = ''-_.~''
   \<and> percentEncode ''Hello World!'' = ''Hello%20World%21''"
proof -
  have a: "percentEncode s = concat (map (\<lambda>c. if unreserved c then [c] else pctXX c) s)"
    using percentEncode_specEncode [of s] by (simp add: specEncode_def)
  have b: "CHR ''+'' \<notin> set (percentEncode s)"
    using specEncode_no_plus [of s] by (simp add: percentEncode_specEncode)
  have c: "percentEncode '' '' = ''%20''" by code_simp
  have d: "percentEncode ''-_.~'' = ''-_.~''" by code_simp
  have e: "percentEncode ''Hello World!'' = ''Hello%20World%21''" by code_simp
  from a b c d e show ?thesis by blast
qed

theorem C2_percentEncode_witness:
  "percentEncode ''a b+c/d~'' = ''a%20b%2Bc%2Fd~''
   \<and> CHR ''+'' \<notin> set (percentEncode ''a b+c/d~'')"
proof -
  have "percentEncode ''a b+c/d~'' = ''a%20b%2Bc%2Fd~''" by code_simp
  with C2_percentEncode [of "''a b+c/d~''"] show ?thesis by blast
qed

end
